theory Spec2Isabelle
  imports Complex_Main "HOL-Library.Monad_Syntax" "HOL-Library.Multiset"
begin

section \<open>Report model (models/report.py)\<close>

text \<open>
  Python floats are modelled as exact reals throughout: the risk score below is the
  arithmetic of the source without rounding.
\<close>

datatype SeverityLevel = CRITICAL | HIGH | MEDIUM | LOW | INFO

datatype VulnerabilityType =
    REENTRANCY | INTEGER_OVERFLOW | INTEGER_UNDERFLOW | UNPROTECTED_ETHER
  | UNEXPECTED_ETHER | UNPROTECTED_SELFDESTRUCT | UNCHECKED_CALL | UNCHECKED_SEND
  | ACCESS_CONTROL | DELEGATECALL | TIMESTAMP_DEPENDENCE | WEAK_RANDOMNESS
  | DOS_GAS_LIMIT | LOGIC_ERROR | SHADOWING | FLOATING_PRAGMA | OUTDATED_COMPILER
  | UNKNOWN

text \<open>
  Modelled from the spec: the class \<open>Vulnerability\<close> of models/vulnerability.py, which is
  not among the sources. The fields are the ones report.py reads (\<open>severity\<close>,
  \<open>confidence\<close>, \<open>swc_id\<close>) and the ones cli/main.py prints.
\<close>

record Vulnerability =
  vuln_title :: string
  vuln_type :: VulnerabilityType
  severity :: SeverityLevel
  confidence :: real
  swc_id :: "string option"

text \<open>
  Modelled from the spec: the ranking of \<open>SeverityLevel\<close> ("critical/high/medium/low/info,
  totally ordered for ranking"); the enum of config/settings.py declares the members in
  this order and defines no comparison of its own.
\<close>

fun severity_rank :: "SeverityLevel \<Rightarrow> nat" where
  "severity_rank CRITICAL = 4"
| "severity_rank HIGH = 3"
| "severity_rank MEDIUM = 2"
| "severity_rank LOW = 1"
| "severity_rank INFO = 0"

datatype AnalysisStatus =
  PENDING | RUNNING | COMPLETED | ANALYSIS_FAILED | ANALYSIS_TIMEOUT | CANCELLED

record AnalysisMetrics =
  total_vulnerabilities :: int
  by_severity :: "SeverityLevel \<rightharpoonup> int"
  by_type :: "string \<rightharpoonup> int"
  by_swc :: "string \<rightharpoonup> int"
  functions_analyzed :: int
  functions_total :: int
  code_coverage :: "real option"
  false_positive_rate :: "real option"
  confidence_avg :: "real option"

definition AnalysisMetrics_default :: AnalysisMetrics where
  "AnalysisMetrics_default =
     \<lparr> total_vulnerabilities = 0, by_severity = Map.empty, by_type = Map.empty,
       by_swc = Map.empty, functions_analyzed = 0, functions_total = 0,
       code_coverage = None, false_positive_rate = None, confidence_avg = None \<rparr>"

text \<open>
  \<open>AnalysisReport\<close>: the identifier, the timestamps and the lists of exploits, tool
  results and contracts are left out; no function below reads them.
\<close>

record AnalysisReport =
  contract_address :: "string option"
  contract_name :: string
  report_status :: AnalysisStatus
  tools_used :: "string list"
  vulnerabilities :: "Vulnerability list"
  metrics :: AnalysisMetrics
  is_multi_contract :: bool
  report_notes :: "string option"
  recommendations :: "string list"

text \<open>
  The constructor with every optional field at its default:
  \<open>AnalysisReport(contract_name=n)\<close>. A keyword argument of the constructor, and an
  assignment to a field afterwards, is a record update of this value.
\<close>

definition AnalysisReport_new :: "string \<Rightarrow> AnalysisReport" where
  "AnalysisReport_new n =
     \<lparr> contract_address = None, contract_name = n, report_status = PENDING, tools_used = [],
       vulnerabilities = [], metrics = AnalysisMetrics_default, is_multi_contract = False,
       report_notes = None, recommendations = [] \<rparr>"

definition severity_weights :: "SeverityLevel \<rightharpoonup> real" where
  "severity_weights =
     [CRITICAL \<mapsto> 10, HIGH \<mapsto> 7.5, MEDIUM \<mapsto> 5, LOW \<mapsto> 2.5, INFO \<mapsto> 0.5]"

text \<open>\<open>severity_weights.get(v.severity, 0)\<close>\<close>

definition weight_of :: "SeverityLevel \<Rightarrow> real" where
  "weight_of s = (case severity_weights s of Some w \<Rightarrow> w | None \<Rightarrow> 0)"

definition calculate_risk_score :: "AnalysisReport \<Rightarrow> real" where
  "calculate_risk_score r =
     (if vulnerabilities r = [] then 0
      else
        let total_score = (\<Sum>v\<leftarrow>vulnerabilities r. weight_of (severity v) * confidence v);
            max_possible = real (length (vulnerabilities r)) * 10
        in if max_possible > 0 then min 10 ((total_score / max_possible) * 10) else 0)"

text \<open>core/pipeline.py: \<open>VulnHunterPipeline.analyze\<close> is a placeholder that ignores its arguments.\<close>

definition pipeline_analyze :: "string \<Rightarrow> 'cfg \<Rightarrow> AnalysisReport" where
  "pipeline_analyze target config = (AnalysisReport_new ''Placeholder'') \<lparr> report_status := COMPLETED \<rparr>"

text \<open>The equality the data model asks of a report.\<close>

definition metrics_consistent :: "AnalysisReport \<Rightarrow> bool" where
  "metrics_consistent r \<longleftrightarrow>
     total_vulnerabilities (metrics r) = int (length (vulnerabilities r))"

text \<open>The weights as the specification lists them.\<close>

fun spec_weight :: "SeverityLevel \<Rightarrow> real" where
  "spec_weight CRITICAL = 10"
| "spec_weight HIGH = 7.5"
| "spec_weight MEDIUM = 5"
| "spec_weight LOW = 2.5"
| "spec_weight INFO = 0.5"

section \<open>Report Aggregator\<close>





subsection \<open>Example reports\<close>

definition finding_high :: Vulnerability where
  "finding_high = \<lparr> vuln_title = ''reentrancy-eth'', vuln_type = REENTRANCY, severity = HIGH,
                     confidence = 0.8, swc_id = Some ''SWC-107'' \<rparr>"

definition finding_medium :: Vulnerability where
  "finding_medium = \<lparr> vuln_title = ''timestamp'', vuln_type = TIMESTAMP_DEPENDENCE,
                       severity = MEDIUM, confidence = 0.8, swc_id = Some ''SWC-116'' \<rparr>"

definition finding_low :: Vulnerability where
  "finding_low = \<lparr> vuln_title = ''pragma'', vuln_type = FLOATING_PRAGMA, severity = LOW,
                    confidence = 0.8, swc_id = Some ''SWC-103'' \<rparr>"

definition report_two :: AnalysisReport where
  "report_two = (AnalysisReport_new ''Bank'') \<lparr> vulnerabilities := [finding_medium, finding_low] \<rparr>"


section \<open>Python values and library functions used by the adapters\<close>

text \<open>
  What \<open>json.loads\<close> returns: \<open>None\<close>, a bool, an int, a float, a str, a list or a dict
  with string keys. A dict is the list of its items in insertion order. Non-finite
  floats are not represented. Strings are 8-bit character lists.
\<close>

datatype json =
    JNull
  | JBool bool
  | JInt int
  | JFloat real
  | JStr string
  | JArr "json list"
  | JObj "(string \<times> json) list"

text \<open>
  The library functions are parameters of the model: \<open>json.loads\<close> (\<open>None\<close> stands for
  \<open>JSONDecodeError\<close>), the two regular expressions of the Echidna adapter with their
  \<open>finditer\<close> results (group 1 of each match of \<open>echidna_(\w+):\s*failed\<close>; groups 1 and 2 of
  each match of \<open>Assertion failed.*?at\s+([^:]+):(\d+)\<close>, both case-insensitive), and the
  built-in \<open>str\<close> on a decoded value, used inside an f-string.
\<close>

record pylib =
  json_loads :: "string \<Rightarrow> json option"
  failed_pattern :: "string \<Rightarrow> string list"
  assertion_pattern :: "string \<Rightarrow> (string \<times> string) list"
  py_str :: "json \<Rightarrow> string"

text \<open>Truth value of an object in a condition.\<close>

fun truthy :: "json \<Rightarrow> bool" where
  "truthy JNull = False"
| "truthy (JBool b) = b"
| "truthy (JInt i) = (i \<noteq> 0)"
| "truthy (JFloat x) = (x \<noteq> 0)"
| "truthy (JStr s) = (s \<noteq> [])"
| "truthy (JArr xs) = (xs \<noteq> [])"
| "truthy (JObj kvs) = (kvs \<noteq> [])"

text \<open>\<open>a or b\<close>\<close>

definition py_or :: "json \<Rightarrow> json \<Rightarrow> json" where
  "py_or a b = (if truthy a then a else b)"

text \<open>Lists and dicts are unhashable: using one as a dictionary key raises \<open>TypeError\<close>.\<close>

fun hashable :: "json \<Rightarrow> bool" where
  "hashable (JArr xs) = False"
| "hashable (JObj kvs) = False"
| "hashable v = True"

fun is_dict :: "json \<Rightarrow> bool" where
  "is_dict (JObj kvs) = True"
| "is_dict v = False"

text \<open>
  In the functions below that run inside \<open>try: ... except Exception: return None\<close>, the
  value \<open>None\<close> of an auxiliary function stands for a raised exception.

  \<open>d.get(k, default)\<close>: \<open>AttributeError\<close> unless \<open>d\<close> is a dict.
\<close>

fun dict_get :: "json \<Rightarrow> string \<Rightarrow> json \<Rightarrow> json option" where
  "dict_get (JObj kvs) k dflt = Some (case map_of kvs k of Some v \<Rightarrow> v | None \<Rightarrow> dflt)"
| "dict_get v k dflt = None"

text \<open>\<open>d[k] = v\<close> on a dict: an existing key keeps its position.\<close>

fun dict_set :: "('k \<times> 'v) list \<Rightarrow> 'k \<Rightarrow> 'v \<Rightarrow> ('k \<times> 'v) list" where
  "dict_set [] k v = [(k, v)]"
| "dict_set ((k', v') # kvs) k v = (if k' = k then (k, v) # kvs else (k', v') # dict_set kvs k v)"

text \<open>\<open>d.update(other)\<close>\<close>

fun dict_update :: "('k \<times> 'v) list \<Rightarrow> ('k \<times> 'v) list \<Rightarrow> ('k \<times> 'v) list" where
  "dict_update d [] = d"
| "dict_update d ((k, v) # other) = dict_update (dict_set d k v) other"

text \<open>
  \<open>table.get(key, default)\<close> on a dictionary literal with string keys and a key that is
  any decoded value: \<open>TypeError\<close> on an unhashable key, the default on a key that is not a
  string.
\<close>

definition table_get :: "(string \<rightharpoonup> 'a) \<Rightarrow> json \<Rightarrow> 'a \<Rightarrow> 'a option" where
  "table_get tbl key dflt =
     (if \<not> hashable key then None
      else Some (case key of
                   JStr s \<Rightarrow> (case tbl s of Some v \<Rightarrow> v | None \<Rightarrow> dflt)
                 | _ \<Rightarrow> dflt))"

text \<open>\<open>len(x)\<close>: \<open>TypeError\<close> on a value without length.\<close>

fun py_len :: "json \<Rightarrow> nat option" where
  "py_len (JStr s) = Some (length s)"
| "py_len (JArr xs) = Some (length xs)"
| "py_len (JObj kvs) = Some (length kvs)"
| "py_len v = None"

text \<open>
  \<open>x[i]\<close> with an integer \<open>i\<close>, negative indices counting from the end: \<open>IndexError\<close> out
  of range, \<open>KeyError\<close> on a dict (whose keys are strings), \<open>TypeError\<close> on the rest.
\<close>

definition seq_index :: "'a list \<Rightarrow> int \<Rightarrow> 'a option" where
  "seq_index xs i =
     (if 0 \<le> i \<and> i < int (length xs) then Some (xs ! nat i)
      else if i < 0 \<and> - i \<le> int (length xs) then Some (xs ! nat (int (length xs) + i))
      else None)"

fun py_index :: "json \<Rightarrow> int \<Rightarrow> json option" where
  "py_index (JArr xs) i = seq_index xs i"
| "py_index (JStr s) i = map_option (\<lambda>c. JStr [c]) (seq_index s i)"
| "py_index v i = None"

text \<open>\<open>for x in v\<close>: a str yields its characters, a dict its keys; \<open>TypeError\<close> on the rest.\<close>

fun py_iter :: "json \<Rightarrow> json list option" where
  "py_iter (JArr xs) = Some xs"
| "py_iter (JStr s) = Some (map (\<lambda>c. JStr [c]) s)"
| "py_iter (JObj kvs) = Some (map (\<lambda>kv. JStr (fst kv)) kvs)"
| "py_iter v = None"

text \<open>\<open>x == False\<close>: the numbers 0 and 0.0 are equal to \<open>False\<close>.\<close>

fun eq_False :: "json \<Rightarrow> bool" where
  "eq_False (JBool b) = (\<not> b)"
| "eq_False (JInt i) = (i = 0)"
| "eq_False (JFloat x) = (x = 0)"
| "eq_False v = False"

subsection \<open>Strings\<close>

text \<open>\<open>str.isspace\<close> on the characters below 256.\<close>

definition py_isspace :: "char \<Rightarrow> bool" where
  "py_isspace c \<longleftrightarrow> (of_char c :: nat) \<in> {9, 10, 11, 12, 13, 28, 29, 30, 31, 32, 133, 160}"

text \<open>\<open>s.strip()\<close>\<close>

definition strip :: "string \<Rightarrow> string" where
  "strip s = rev (dropWhile py_isspace (rev (dropWhile py_isspace s)))"

text \<open>\<open>s.find(c)\<close> for a single character: the first index, or \<open>-1\<close>.\<close>

fun str_find :: "string \<Rightarrow> char \<Rightarrow> int" where
  "str_find [] c = - 1"
| "str_find (x # xs) c =
     (if x = c then 0 else (let i = str_find xs c in if i = - 1 then - 1 else i + 1))"

text \<open>\<open>s.startswith(p)\<close> and \<open>p in s\<close>\<close>

fun startswith :: "string \<Rightarrow> string \<Rightarrow> bool" where
  "startswith s [] = True"
| "startswith [] (p # ps) = False"
| "startswith (c # cs) (p # ps) = (c = p \<and> startswith cs ps)"

fun str_contains :: "string \<Rightarrow> string \<Rightarrow> bool" where
  "str_contains p [] = (p = [])"
| "str_contains p (c # cs) = (startswith (c # cs) p \<or> str_contains p cs)"

text \<open>
  \<open>s.lower()\<close>, on the ASCII letters. The adapters only search the result for ASCII
  keywords, and no character below 256 outside A-Z lowers to an ASCII letter.
\<close>

definition lower_char :: "char \<Rightarrow> char" where
  "lower_char c =
     (let n = (of_char c :: nat) in if 65 \<le> n \<and> n \<le> 90 then char_of (n + 32) else c)"

definition lower :: "string \<Rightarrow> string" where
  "lower s = map lower_char s"

text \<open>\<open>s.replace(old, '''')\<close> for a non-empty \<open>old\<close>: every occurrence, left to right.\<close>

function remove_all :: "string \<Rightarrow> string \<Rightarrow> string" where
  "remove_all old [] = []"
| "remove_all old (c # cs) =
     (if old \<noteq> [] \<and> startswith (c # cs) old
      then remove_all old (drop (length old) (c # cs))
      else c # remove_all old cs)"
  by pat_completeness auto
termination
  by (relation "measure (\<lambda>(old, s). length s)") (auto simp: neq_Nil_conv)

text \<open>\<open>s[:n]\<close> is \<open>take n s\<close>. \<open>str(i)\<close> and \<open>int(s)\<close> for decimal integers:\<close>

fun str_nat :: "nat \<Rightarrow> string" where
  "str_nat n =
     (if n < 10 then [''0123456789'' ! n]
      else str_nat (n div 10) @ [''0123456789'' ! (n mod 10)])"

definition str_int :: "int \<Rightarrow> string" where
  "str_int i = (if i < 0 then CHR ''-'' # str_nat (nat (- i)) else str_nat (nat i))"

definition digit_value :: "char \<Rightarrow> nat option" where
  "digit_value c =
     (let n = (of_char c :: nat) in if 48 \<le> n \<and> n \<le> 57 then Some (n - 48) else None)"

fun int_of_digits :: "string \<Rightarrow> nat \<Rightarrow> nat option" where
  "int_of_digits [] acc = Some acc"
| "int_of_digits (c # cs) acc =
     (case digit_value c of None \<Rightarrow> None | Some d \<Rightarrow> int_of_digits cs (10 * acc + d))"

text \<open>
  \<open>int(s)\<close> on the digits a match of \<open>(\d+)\<close> holds: \<open>ValueError\<close> on anything else, and
  on more than 4300 digits (the default limit of the conversion, which counts leading
  zeros too).
\<close>

definition py_int :: "string \<Rightarrow> int option" where
  "py_int s =
     (if s = [] \<or> length s > 4300 then None else map_option int (int_of_digits s 0))"

section \<open>Findings and tool results (tools/base.py)\<close>

text \<open>
  Modelled from the spec: the classes \<open>VulnerabilityLocation\<close> and \<open>Finding\<close> of
  models/vulnerability.py, which is not among the sources. The fields are the keyword
  arguments the adapters pass; their types are the ones the data model gives (file path
  and code snippet are text, the lines are integers, title and description are text,
  the raw output is a dict). Like the other model classes of the repository, the
  constructors are taken to validate: a value of another type raises, which is \<open>None\<close>
  here.
\<close>

record VulnerabilityLocation =
  file_path :: string
  start_line :: int
  end_line :: int
  code_snippet :: string

record Finding =
  tool :: string
  title :: string
  description :: string
  vulnerability_type :: VulnerabilityType
  finding_severity :: SeverityLevel
  finding_confidence :: real
  location :: "VulnerabilityLocation option"
  raw_output :: "(string \<times> json) list"

fun as_str :: "json \<Rightarrow> string option" where
  "as_str (JStr s) = Some s"
| "as_str v = None"

fun as_int :: "json \<Rightarrow> int option" where
  "as_int (JInt i) = Some i"
| "as_int v = None"

fun as_dict :: "json \<Rightarrow> (string \<times> json) list option" where
  "as_dict (JObj kvs) = Some kvs"
| "as_dict v = None"

definition VulnerabilityLocation_new ::
    "json \<Rightarrow> json \<Rightarrow> json \<Rightarrow> json \<Rightarrow> VulnerabilityLocation option" where
  "VulnerabilityLocation_new fp sl el cs =
     do {
       fp' \<leftarrow> as_str fp;
       sl' \<leftarrow> as_int sl;
       el' \<leftarrow> as_int el;
       cs' \<leftarrow> as_str cs;
       Some \<lparr> file_path = fp', start_line = sl', end_line = el', code_snippet = cs' \<rparr>
     }"

definition Finding_new ::
    "string \<Rightarrow> json \<Rightarrow> json \<Rightarrow> VulnerabilityType \<Rightarrow> SeverityLevel \<Rightarrow> real
       \<Rightarrow> VulnerabilityLocation option \<Rightarrow> json \<Rightarrow> Finding option" where
  "Finding_new tool_nm ti de vt sev conf loc raw =
     do {
       ti' \<leftarrow> as_str ti;
       de' \<leftarrow> as_str de;
       raw' \<leftarrow> as_dict raw;
       Some \<lparr> tool = tool_nm, title = ti', description = de', vulnerability_type = vt,
              finding_severity = sev, finding_confidence = conf, location = loc,
              raw_output = raw' \<rparr>
     }"

datatype ToolStatus = SUCCESS | FAILED | TIMEOUT | ERROR

text \<open>\<open>ToolResult\<close>, without the wall-clock \<open>execution_time\<close> and the unused \<open>metadata\<close>.\<close>

record ToolResult =
  tool_name :: string
  status :: ToolStatus
  findings :: "Finding list"
  result_raw_output :: "string option"
  error_message :: "string option"

text \<open>
  Exceptions as values: \<open>asyncio.TimeoutError\<close>, the built-in \<open>TimeoutError\<close> and any other
  subclass of \<open>Exception\<close>, the last two with the text \<open>str(e)\<close> gives.
\<close>

datatype exn = AsyncTimeoutError | TimeoutError string | Exception string

fun type_name :: "json \<Rightarrow> string" where
  "type_name JNull = ''NoneType''"
| "type_name (JBool b) = ''bool''"
| "type_name (JInt i) = ''int''"
| "type_name (JFloat x) = ''float''"
| "type_name (JStr s) = ''str''"
| "type_name (JArr xs) = ''list''"
| "type_name (JObj kvs) = ''dict''"

text \<open>The \<open>AttributeError\<close> of \<open>v.get\<close> on a value that is not a dict.\<close>

definition no_get :: "json \<Rightarrow> exn" where
  "no_get v = Exception ([CHR 0x27] @ type_name v @ [CHR 0x27] @ '' object has no attribute ''
                          @ [CHR 0x27] @ ''get'' @ [CHR 0x27])"

section \<open>Slither adapter (tools/slither.py)\<close>

definition detector_mapping :: "string \<rightharpoonup> VulnerabilityType" where
  "detector_mapping = map_of
     [ (''reentrancy-eth'', REENTRANCY),
       (''reentrancy-no-eth'', REENTRANCY),
       (''reentrancy-benign'', REENTRANCY),
       (''reentrancy-events'', REENTRANCY),
       (''reentrancy-unlimited-gas'', REENTRANCY),
       (''unprotected-upgrade'', ACCESS_CONTROL),
       (''suicidal'', UNPROTECTED_SELFDESTRUCT),
       (''unchecked-transfer'', UNCHECKED_CALL),
       (''unchecked-lowlevel'', UNCHECKED_CALL),
       (''unchecked-send'', UNCHECKED_SEND),
       (''arbitrary-send'', UNPROTECTED_ETHER),
       (''controlled-delegatecall'', DELEGATECALL),
       (''delegatecall-loop'', DELEGATECALL),
       (''timestamp'', TIMESTAMP_DEPENDENCE),
       (''weak-prng'', WEAK_RANDOMNESS),
       (''divide-before-multiply'', INTEGER_OVERFLOW),
       (''locked-ether'', UNEXPECTED_ETHER),
       (''tx-origin'', ACCESS_CONTROL),
       (''shadowing-state'', SHADOWING),
       (''incorrect-equality'', LOGIC_ERROR),
       (''uninitialized-state'', LOGIC_ERROR),
       (''uninitialized-storage'', LOGIC_ERROR),
       (''uninitialized-local'', LOGIC_ERROR),
       (''pragma'', FLOATING_PRAGMA),
       (''solc-version'', OUTDATED_COMPILER) ]"

fun swc_mapping :: "VulnerabilityType \<rightharpoonup> string" where
  "swc_mapping REENTRANCY = Some ''SWC-107''"
| "swc_mapping INTEGER_OVERFLOW = Some ''SWC-101''"
| "swc_mapping INTEGER_UNDERFLOW = Some ''SWC-101''"
| "swc_mapping UNPROTECTED_SELFDESTRUCT = Some ''SWC-106''"
| "swc_mapping UNPROTECTED_ETHER = Some ''SWC-105''"
| "swc_mapping UNCHECKED_CALL = Some ''SWC-104''"
| "swc_mapping FLOATING_PRAGMA = Some ''SWC-103''"
| "swc_mapping OUTDATED_COMPILER = Some ''SWC-102''"
| "swc_mapping DELEGATECALL = Some ''SWC-112''"
| "swc_mapping WEAK_RANDOMNESS = Some ''SWC-120''"
| "swc_mapping TIMESTAMP_DEPENDENCE = Some ''SWC-116''"
| "swc_mapping SHADOWING = Some ''SWC-119''"
| "swc_mapping UNCHECKED_SEND = Some ''SWC-113''"
| "swc_mapping ACCESS_CONTROL = Some ''SWC-115''"
| "swc_mapping v = None"

definition slither_map_severity :: "json \<Rightarrow> SeverityLevel option" where
  "slither_map_severity impact =
     table_get (map_of [ (''High'', HIGH), (''Medium'', MEDIUM), (''Low'', LOW),
                         (''Informational'', INFO), (''Optimization'', INFO) ])
       impact MEDIUM"

definition confidence_to_score :: "json \<Rightarrow> real option" where
  "confidence_to_score c =
     table_get (map_of [ (''High'', 0.9), (''Medium'', 0.7), (''Low'', 0.5) ]) c 0.7"

text \<open>
  The location of a detector, from the first of its elements: the outer \<open>None\<close> is an
  exception, \<open>Some None\<close> is "no location".
\<close>

definition slither_location :: "json \<Rightarrow> VulnerabilityLocation option option" where
  "slither_location elements =
     (if \<not> truthy elements then Some None
      else do {
        n \<leftarrow> py_len elements;
        if n > 0 then do {
          element \<leftarrow> py_index elements 0;
          source_mapping \<leftarrow> dict_get element ''source_mapping'' (JObj []);
          if truthy source_mapping then do {
            fp \<leftarrow> dict_get source_mapping ''filename'' (JStr '''');
            lines \<leftarrow> dict_get source_mapping ''lines'' JNull;
            sl \<leftarrow> (if truthy lines
                   then do { ls \<leftarrow> dict_get source_mapping ''lines'' (JArr [JInt 0]);
                             py_index ls 0 }
                   else Some (JInt 0));
            el \<leftarrow> (if truthy lines
                   then do { ls \<leftarrow> dict_get source_mapping ''lines'' (JArr [JInt 0]);
                             py_index ls (- 1) }
                   else Some (JInt 0));
            cs \<leftarrow> dict_get element ''source'' (JStr '''');
            loc \<leftarrow> VulnerabilityLocation_new fp sl el cs;
            Some (Some loc)
          } else Some None
        } else Some None
      })"

text \<open>The body of the loop over the detectors: the finding of one detector.\<close>

definition slither_detector_finding :: "json \<Rightarrow> Finding option" where
  "slither_detector_finding detector =
     do {
       check \<leftarrow> dict_get detector ''check'' (JStr ''unknown'');
       impact \<leftarrow> dict_get detector ''impact'' (JStr ''Medium'');
       confidence \<leftarrow> dict_get detector ''confidence'' (JStr ''Medium'');
       description \<leftarrow> dict_get detector ''description'' (JStr '''');
       vuln_type \<leftarrow> table_get detector_mapping check UNKNOWN;
       elements \<leftarrow> dict_get detector ''elements'' (JArr []);
       location \<leftarrow> slither_location elements;
       title \<leftarrow> dict_get detector ''check'' (JStr ''Unknown Issue'');
       sev \<leftarrow> slither_map_severity impact;
       conf \<leftarrow> confidence_to_score confidence;
       finding \<leftarrow> Finding_new ''slither'' title description vuln_type sev conf location detector;
       Some (case swc_mapping vuln_type of
               Some swc \<Rightarrow>
                 if swc \<noteq> [] then finding \<lparr> raw_output := dict_set (raw_output finding) ''swc_id'' (JStr swc) \<rparr>
                 else finding
             | None \<Rightarrow> finding)
     }"

text \<open>The loop; \<open>acc\<close> is the list \<open>findings\<close> built so far.\<close>

fun slither_detectors_loop :: "json list \<Rightarrow> Finding list \<Rightarrow> Finding list option" where
  "slither_detectors_loop [] acc = Some acc"
| "slither_detectors_loop (detector # rest) acc =
     (case slither_detector_finding detector of
        None \<Rightarrow> None
      | Some finding \<Rightarrow> slither_detectors_loop rest (acc @ [finding]))"

text \<open>From \<open>data = json.loads(slither_output)\<close> on.\<close>

definition slither_parse_data :: "json \<Rightarrow> Finding list option" where
  "slither_parse_data data =
     do {
       ok \<leftarrow> dict_get data ''success'' (JBool False);
       if \<not> truthy ok then None
       else do {
         results \<leftarrow> dict_get data ''results'' (JObj []);
         detectors \<leftarrow> dict_get results ''detectors'' (JArr []);
         items \<leftarrow> py_iter detectors;
         slither_detectors_loop items []
       }
     }"

text \<open>
  \<open>_parse_output\<close>: \<open>Some\<close> is the list returned, \<open>None\<close> is the \<open>None\<close> returned, by
  \<open>return None\<close> or from either \<open>except\<close> clause. The argument is whatever the caller read
  from the wrapper's dict.
\<close>

definition slither_parse_output :: "pylib \<Rightarrow> json \<Rightarrow> Finding list option" where
  "slither_parse_output lib output =
     (case output of
        JStr out \<Rightarrow>
          if strip out = [] then Some []
          else
            let json_start = str_find out CHR ''{'' in
            if json_start = - 1 then Some []
            else
              (case json_loads lib (drop (nat json_start) out) of
                 None \<Rightarrow> None
               | Some wrapper_data \<Rightarrow>
                   (case dict_get wrapper_data ''status'' JNull of
                      None \<Rightarrow> None
                    | Some st \<Rightarrow>
                        if st \<noteq> JStr ''success'' then Some []
                        else
                          (case dict_get wrapper_data ''stdout'' (JStr '''') of
                             Some (JStr slither_output) \<Rightarrow>
                               if strip slither_output = [] then Some []
                               else (case json_loads lib slither_output of
                                       None \<Rightarrow> None
                                     | Some data \<Rightarrow> slither_parse_data data)
                           | _ \<Rightarrow> None)))
      | _ \<Rightarrow> None)"

text \<open>
  \<open>_parse_wrapper_output\<close>: \<open>Inr\<close> is the value returned (a list or \<open>None\<close>), \<open>Inl\<close> an
  exception that leaves the function; the \<open>except\<close> clause catches \<open>JSONDecodeError\<close> and
  \<open>KeyError\<close> only.
\<close>

definition slither_parse_wrapper_output ::
    "pylib \<Rightarrow> string \<Rightarrow> string \<Rightarrow> exn + Finding list option" where
  "slither_parse_wrapper_output lib output stderr =
     (case json_loads lib output of
        None \<Rightarrow> Inr (Some [])
      | Some wrapper_result \<Rightarrow>
          (case dict_get wrapper_result ''status'' JNull of
             None \<Rightarrow> Inl (no_get wrapper_result)
           | Some st \<Rightarrow>
               if st \<noteq> JStr ''success'' then Inr (Some [])
               else (case dict_get wrapper_result ''stdout'' (JStr '''') of
                       None \<Rightarrow> Inl (no_get wrapper_result)
                     | Some slither_output \<Rightarrow> Inr (slither_parse_output lib slither_output))))"

section \<open>Mythril adapter (tools/mythril.py)\<close>

definition swc_to_vuln_type :: "string \<rightharpoonup> VulnerabilityType" where
  "swc_to_vuln_type = map_of
     [ (''SWC-101'', INTEGER_OVERFLOW),
       (''SWC-104'', UNCHECKED_CALL),
       (''SWC-105'', UNPROTECTED_ETHER),
       (''SWC-106'', UNPROTECTED_SELFDESTRUCT),
       (''SWC-107'', REENTRANCY),
       (''SWC-110'', LOGIC_ERROR),
       (''SWC-112'', DELEGATECALL),
       (''SWC-113'', UNCHECKED_SEND),
       (''SWC-115'', ACCESS_CONTROL),
       (''SWC-116'', TIMESTAMP_DEPENDENCE),
       (''SWC-120'', WEAK_RANDOMNESS),
       (''SWC-124'', ACCESS_CONTROL),
       (''SWC-128'', DOS_GAS_LIMIT) ]"

definition mythril_map_severity :: "json \<Rightarrow> SeverityLevel option" where
  "mythril_map_severity sev =
     table_get (map_of [ (''High'', HIGH), (''Medium'', MEDIUM), (''Low'', LOW),
                         (''Informational'', INFO) ])
       sev MEDIUM"

text \<open>The body of the loop over the issues, for an issue that is a dict.\<close>

definition mythril_issue_finding :: "json \<Rightarrow> Finding option" where
  "mythril_issue_finding issue =
     do {
       a \<leftarrow> dict_get issue ''swc-id'' JNull;
       b \<leftarrow> dict_get issue ''swcID'' JNull;
       let swc_id = py_or (py_or a b) (JStr '''');
       vuln_type \<leftarrow> table_get swc_to_vuln_type swc_id UNKNOWN;
       lineno \<leftarrow> dict_get issue ''lineno'' (JInt 0);
       location \<leftarrow>
         (if truthy lineno then do {
            fp \<leftarrow> dict_get issue ''filename'' (JStr '''');
            cs \<leftarrow> dict_get issue ''code'' (JStr '''');
            loc \<leftarrow> VulnerabilityLocation_new fp lineno lineno cs;
            Some (Some loc)
          } else Some None);
       title \<leftarrow> dict_get issue ''title'' (JStr ''Unknown Issue'');
       description \<leftarrow> dict_get issue ''description'' (JStr '''');
       severity \<leftarrow> dict_get issue ''severity'' (JStr ''Medium'');
       sev \<leftarrow> mythril_map_severity severity;
       finding \<leftarrow> Finding_new ''mythril'' title description vuln_type sev 0.8 location issue;
       Some (finding \<lparr> raw_output := dict_set (raw_output finding) ''swc_id'' swc_id \<rparr>)
     }"

text \<open>The loop: an issue that is not a dict is skipped (\<open>continue\<close>).\<close>

fun mythril_issues_loop :: "json list \<Rightarrow> Finding list \<Rightarrow> Finding list option" where
  "mythril_issues_loop [] acc = Some acc"
| "mythril_issues_loop (issue # rest) acc =
     (if \<not> is_dict issue then mythril_issues_loop rest acc
      else
        (case mythril_issue_finding issue of
           None \<Rightarrow> None
         | Some finding \<Rightarrow> mythril_issues_loop rest (acc @ [finding])))"

text \<open>
  The issues of the decoded output: the outer \<open>None\<close> is \<open>return None\<close>, \<open>Some None\<close> is
  \<open>return []\<close>, and \<open>Some (Some issues)\<close> goes on to the loop.
\<close>

fun mythril_issues :: "json \<Rightarrow> json option option" where
  "mythril_issues (JObj kvs) =
     (case map_of kvs ''issues'' of
        Some v \<Rightarrow> Some (Some v)
      | None \<Rightarrow>
          (case map_of kvs ''results'' of
             Some v \<Rightarrow> Some (Some v)
           | None \<Rightarrow> Some None))"
| "mythril_issues (JArr xs) = Some (Some (JArr xs))"
| "mythril_issues v = None"

definition mythril_parse_output :: "pylib \<Rightarrow> json \<Rightarrow> Finding list option" where
  "mythril_parse_output lib output =
     (case output of
        JStr out \<Rightarrow>
          if strip out = [] then Some []
          else
            (case json_loads lib out of
               None \<Rightarrow> None
             | Some data \<Rightarrow>
                 (case mythril_issues data of
                    None \<Rightarrow> None
                  | Some None \<Rightarrow> Some []
                  | Some (Some issues) \<Rightarrow>
                      do { items \<leftarrow> py_iter issues; mythril_issues_loop items [] }))
      | _ \<Rightarrow> None)"

definition mythril_parse_wrapper_output ::
    "pylib \<Rightarrow> string \<Rightarrow> string \<Rightarrow> exn + Finding list option" where
  "mythril_parse_wrapper_output lib output stderr =
     (case json_loads lib output of
        None \<Rightarrow> Inr (Some [])
      | Some wrapper_result \<Rightarrow>
          (case dict_get wrapper_result ''status'' JNull of
             None \<Rightarrow> Inl (no_get wrapper_result)
           | Some st \<Rightarrow>
               if st \<noteq> JStr ''success'' then Inr (Some [])
               else (case dict_get wrapper_result ''stdout'' (JStr '''') of
                       None \<Rightarrow> Inl (no_get wrapper_result)
                     | Some mythril_output \<Rightarrow> Inr (mythril_parse_output lib mythril_output))))"

section \<open>Echidna adapter (tools/echidna.py)\<close>

text \<open>\<open>property_to_vuln_type\<close>, in the order of the dictionary literal.\<close>

definition property_to_vuln_type :: "(string \<times> VulnerabilityType) list" where
  "property_to_vuln_type =
     [ (''balance'', UNPROTECTED_ETHER),
       (''theft'', UNPROTECTED_ETHER),
       (''reentrancy'', REENTRANCY),
       (''overflow'', INTEGER_OVERFLOW),
       (''underflow'', INTEGER_UNDERFLOW),
       (''access'', ACCESS_CONTROL),
       (''dos'', DOS_GAS_LIMIT) ]"

text \<open>
  The loop over the keywords: the type of the first keyword found in the lowered
  property name, \<open>UNKNOWN\<close> when there is none.
\<close>

fun keyword_type :: "(string \<times> VulnerabilityType) list \<Rightarrow> string \<Rightarrow> VulnerabilityType" where
  "keyword_type [] property_name = UNKNOWN"
| "keyword_type ((keyword, vtype) # rest) property_name =
     (if str_contains keyword (lower property_name) then vtype
      else keyword_type rest property_name)"

text \<open>The finding of one match of the "failed" pattern (text output).\<close>

definition failed_finding :: "string \<Rightarrow> Finding" where
  "failed_finding property_name =
     \<lparr> tool = ''echidna'',
       title = ''Property Violation: echidna_'' @ property_name,
       description = ''Echidna found inputs that violate the property '' @ [CHR 0x27]
         @ ''echidna_'' @ property_name @ [CHR 0x27]
         @ ''. This indicates a potential vulnerability where the expected invariant can be broken.'',
       vulnerability_type = keyword_type property_to_vuln_type property_name,
       finding_severity = HIGH,
       finding_confidence = 0.9,
       location = None,
       raw_output = [(''property'', JStr property_name), (''status'', JStr ''failed'')] \<rparr>"

text \<open>The finding of one match of the assertion pattern; \<open>int\<close> of the second group may raise.\<close>

definition assertion_finding :: "string \<times> string \<Rightarrow> Finding option" where
  "assertion_finding m =
     do {
       line_num \<leftarrow> py_int (snd m);
       Some \<lparr> tool = ''echidna'',
              title = ''Assertion Failure'',
              description = ''Echidna triggered an assertion failure, indicating a contract invariant was violated.'',
              vulnerability_type = LOGIC_ERROR,
              finding_severity = HIGH,
              finding_confidence = 0.9,
              location = Some \<lparr> file_path = fst m, start_line = line_num,
                                 end_line = line_num, code_snippet = '''' \<rparr>,
              raw_output = [(''type'', JStr ''assertion_failure''), (''line'', JInt line_num)] \<rparr>
     }"

fun assertion_loop :: "(string \<times> string) list \<Rightarrow> Finding list \<Rightarrow> Finding list option" where
  "assertion_loop [] acc = Some acc"
| "assertion_loop (m # rest) acc =
     (case assertion_finding m of
        None \<Rightarrow> None
      | Some finding \<Rightarrow> assertion_loop rest (acc @ [finding]))"

text \<open>A value inside an f-string: a str is itself, anything else goes through \<open>str\<close>.\<close>

definition fmt :: "pylib \<Rightarrow> json \<Rightarrow> string" where
  "fmt lib v = (case v of JStr s \<Rightarrow> s | _ \<Rightarrow> py_str lib v)"

text \<open>
  \<open>_parse_json_output\<close>, the body of the loop over \<open>data["tests"].items()\<close>: \<open>Some None\<close> when
  the test did not fail, \<open>None\<close> on an exception.
\<close>

definition test_finding :: "pylib \<Rightarrow> string \<times> json \<Rightarrow> Finding option option" where
  "test_finding lib item =
     (case item of (test_name, test_result) \<Rightarrow>
        do {
          st \<leftarrow> dict_get test_result ''status'' JNull;
          passed \<leftarrow> dict_get test_result ''passed'' JNull;
          if st = JStr ''failed'' \<or> eq_False passed then do {
            let property_name = remove_all ''echidna_'' test_name;
            counterexample \<leftarrow> dict_get test_result ''counterexample'' (JStr ''Not provided'');
            raw \<leftarrow> as_dict test_result;
            Some (Some \<lparr> tool = ''echidna'',
                         title = ''Property Violation: '' @ test_name,
                         description = ''Echidna found inputs that violate the property ''
                           @ [CHR 0x27] @ test_name @ [CHR 0x27] @ ''. Counterexample: ''
                           @ fmt lib counterexample,
                         vulnerability_type = keyword_type property_to_vuln_type property_name,
                         finding_severity = HIGH,
                         finding_confidence = 0.9,
                         location = None,
                         raw_output = raw \<rparr>)
          } else Some None
        })"

fun tests_loop :: "pylib \<Rightarrow> (string \<times> json) list \<Rightarrow> Finding list \<Rightarrow> Finding list option" where
  "tests_loop lib [] acc = Some acc"
| "tests_loop lib (item # rest) acc =
     (case test_finding lib item of
        None \<Rightarrow> None
      | Some None \<Rightarrow> tests_loop lib rest acc
      | Some (Some finding) \<Rightarrow> tests_loop lib rest (acc @ [finding]))"

text \<open>
  \<open>_parse_json_output\<close>. It has no \<open>try\<close> of its own: \<open>None\<close> is an exception, which its
  caller turns into the \<open>None\<close> it returns. \<open>"tests" in data\<close> is a key test on a dict, a
  membership test on a list, a substring test on a str and a \<open>TypeError\<close> on the rest;
  \<open>data["tests"]\<close> raises on a list and on a str.
\<close>

fun parse_json_output :: "pylib \<Rightarrow> json \<Rightarrow> Finding list option" where
  "parse_json_output lib (JObj kvs) =
     (case map_of kvs ''tests'' of
        None \<Rightarrow> Some []
      | Some (JObj tests) \<Rightarrow> tests_loop lib tests []
      | Some v \<Rightarrow> None)"
| "parse_json_output lib (JArr xs) = (if JStr ''tests'' \<in> set xs then None else Some [])"
| "parse_json_output lib (JStr s) = (if str_contains ''tests'' s then None else Some [])"
| "parse_json_output lib v = None"

text \<open>The text fallback: both patterns over \<open>stdout + "\n" + stderr\<close>.\<close>

definition parse_text_output :: "pylib \<Rightarrow> string \<Rightarrow> json \<Rightarrow> Finding list option" where
  "parse_text_output lib out err =
     (case err of
        JStr stderr \<Rightarrow>
          let full_output = out @ [CHR 0x0A] @ stderr
          in assertion_loop (assertion_pattern lib full_output)
               (map failed_finding (failed_pattern lib full_output))
      | _ \<Rightarrow> None)"

definition echidna_parse_output :: "pylib \<Rightarrow> json \<Rightarrow> json \<Rightarrow> Finding list option" where
  "echidna_parse_output lib out err =
     (case out of
        JStr stdout \<Rightarrow>
          if strip stdout \<noteq> [] \<and> startswith (strip stdout) ''{''
          then (case json_loads lib stdout of
                  Some data \<Rightarrow> parse_json_output lib data
                | None \<Rightarrow> parse_text_output lib stdout err)
          else parse_text_output lib stdout err
      | _ \<Rightarrow> None)"

definition echidna_parse_wrapper_output ::
    "pylib \<Rightarrow> string \<Rightarrow> string \<Rightarrow> exn + Finding list option" where
  "echidna_parse_wrapper_output lib output stderr =
     (case json_loads lib output of
        None \<Rightarrow> Inr (Some [])
      | Some wrapper_result \<Rightarrow>
          (case dict_get wrapper_result ''status'' JNull of
             None \<Rightarrow> Inl (no_get wrapper_result)
           | Some st \<Rightarrow>
               if st \<noteq> JStr ''success'' then Inr (Some [])
               else (case (dict_get wrapper_result ''stdout'' (JStr ''''),
                           dict_get wrapper_result ''stderr'' (JStr '''')) of
                       (Some echidna_stdout, Some echidna_stderr) \<Rightarrow>
                         Inr (echidna_parse_output lib echidna_stdout echidna_stderr)
                     | _ \<Rightarrow> Inl (no_get wrapper_result))))"

section \<open>Docker wrapper (tools/docker_wrapper.py)\<close>

text \<open>
  The entries of the \<open>config\<close> dict that the wrapper reads, \<open>None\<close> for an absent key;
  the values are taken to be integers.
\<close>

record wrapper_config =
  cfg_timeout :: "int option"
  cfg_max_memory_mb :: "int option"
  cfg_max_cpus :: "int option"

record DockerToolWrapper =
  self_tool_name :: string
  docker_image :: string
  config :: wrapper_config
  initialized :: bool
  container_name :: string
  container_id :: "string option"

text \<open>
  \<open>__init__\<close>: \<open>unique_id\<close> is the text made of the clock reading and the random number.
\<close>

definition DockerToolWrapper_new ::
    "string \<Rightarrow> string \<Rightarrow> wrapper_config \<Rightarrow> string \<Rightarrow> DockerToolWrapper" where
  "DockerToolWrapper_new tname img cfg unique_id =
     \<lparr> self_tool_name = tname, docker_image = img, config = cfg, initialized = False,
       container_name = ''vulnhunter-'' @ tname @ ''-'' @ unique_id, container_id = None \<rparr>"

text \<open>
  The outside world answers each command line: the process exits with its output and
  return code, or it is still running at any deadline, or it cannot be started (an
  exception with its text). The state is the wrapper object and the list of the command
  lines started so far.
\<close>

datatype proc = Exits string string int | Overruns | SpawnError string

type_synonym world = "string list \<Rightarrow> proc"

record state =
  wrapper :: DockerToolWrapper
  commands :: "string list list"

text \<open>
  The outcome of an awaited call: a value, an exception, or no return at all (a process
  that never ends, awaited without a timeout).
\<close>

datatype 'a result = Return 'a | Raise exn | Hang

text \<open>
  \<open>_run_command\<close>. \<open>if timeout:\<close> holds for an integer other than 0, and
  \<open>asyncio.wait_for\<close> with a negative timeout raises at once, whatever the process would
  have done. Without \<open>capture_output\<close> both streams come back empty.
\<close>

definition run_command ::
    "world \<Rightarrow> string list \<Rightarrow> int option \<Rightarrow> bool \<Rightarrow> state
       \<Rightarrow> (string \<times> string \<times> int) result \<times> state" where
  "run_command env cmd timeout capture_output s =
     (let s' = s \<lparr> commands := commands s @ [cmd] \<rparr> in
      case env cmd of
        SpawnError msg \<Rightarrow> (Raise (Exception msg), s')
      | Overruns \<Rightarrow>
          (if timeout \<noteq> None \<and> timeout \<noteq> Some 0 then (Raise AsyncTimeoutError, s')
           else (Hang, s'))
      | Exits out err rc \<Rightarrow>
          (if (case timeout of Some t \<Rightarrow> t < 0 | None \<Rightarrow> False)
           then (Raise AsyncTimeoutError, s')
           else (Return (if capture_output then out else [],
                         if capture_output then err else [], rc), s')))"

definition set_initialized :: "state \<Rightarrow> state" where
  "set_initialized s = s \<lparr> wrapper := (wrapper s) \<lparr> initialized := True \<rparr> \<rparr>"

definition initialize :: "world \<Rightarrow> state \<Rightarrow> unit result \<times> state" where
  "initialize env s =
     (if initialized (wrapper s) then (Return (), s)
      else
        (case run_command env [''docker'', ''images'', ''-q'', docker_image (wrapper s)] None True s of
           (Raise e, s1) \<Rightarrow> (Raise e, s1)
         | (Hang, s1) \<Rightarrow> (Hang, s1)
         | (Return (out, err, rc), s1) \<Rightarrow>
             if strip out = [] then
               (case run_command env [''docker'', ''pull'', docker_image (wrapper s)] None False s1 of
                  (Raise e, s2) \<Rightarrow> (Raise e, s2)
                | (Hang, s2) \<Rightarrow> (Hang, s2)
                | (Return (out2, stderr, returncode), s2) \<Rightarrow>
                    if returncode \<noteq> 0
                    then (Raise (Exception (''Failed to pull Docker image ''
                                   @ docker_image (wrapper s) @ '': '' @ stderr)), s2)
                    else (Return (), set_initialized s2))
             else (Return (), set_initialized s1)))"

definition clear_container_id :: "state \<Rightarrow> state" where
  "clear_container_id s = s \<lparr> wrapper := (wrapper s) \<lparr> container_id := None \<rparr> \<rparr>"

text \<open>
  \<open>cleanup\<close>. \<open>if self._container_id:\<close> holds for a non-empty string. An exception of
  \<open>docker stop\<close> skips \<open>docker rm\<close>; the \<open>finally\<close> clause resets the field either way.
\<close>

definition cleanup :: "world \<Rightarrow> state \<Rightarrow> unit result \<times> state" where
  "cleanup env s =
     (case container_id (wrapper s) of
        None \<Rightarrow> (Return (), s)
      | Some cid \<Rightarrow>
          if cid = [] then (Return (), s)
          else
            (case run_command env [''docker'', ''stop'', cid] None True s of
               (Hang, s1) \<Rightarrow> (Hang, s1)
             | (Raise e, s1) \<Rightarrow> (Return (), clear_container_id s1)
             | (Return r, s1) \<Rightarrow>
                 (case run_command env [''docker'', ''rm'', cid] None True s1 of
                    (Hang, s2) \<Rightarrow> (Hang, s2)
                  | (Raise e, s2) \<Rightarrow> (Return (), clear_container_id s2)
                  | (Return r2, s2) \<Rightarrow> (Return (), clear_container_id s2))))"

text \<open>The command line \<open>docker run ...\<close> that \<open>run_in_container\<close> builds.\<close>

definition docker_cmd ::
    "DockerToolWrapper \<Rightarrow> string list \<Rightarrow> string \<Rightarrow> string \<Rightarrow> (string \<times> string) list
       \<Rightarrow> (string \<times> string) list \<Rightarrow> bool \<Rightarrow> string list" where
  "docker_cmd w command host_path working_dir additional_volumes environment network_enabled =
     (let volumes = dict_update [(host_path, ''/contracts'')] additional_volumes in
      [''docker'', ''run'', ''--rm'', ''--name'', container_name w, ''-w'', working_dir]
      @ concat (map (\<lambda>(host, cont). [''-v'', host @ '':'' @ cont @ '':ro'']) volumes)
      @ concat (map (\<lambda>(key, val). [''-e'', key @ ''='' @ val]) environment)
      @ [''--memory'',
         str_int (case cfg_max_memory_mb (config w) of Some m \<Rightarrow> m | None \<Rightarrow> 4096) @ ''m'',
         ''--cpus'',
         str_int (case cfg_max_cpus (config w) of Some c \<Rightarrow> c | None \<Rightarrow> 2)]
      @ [''--security-opt'', ''no-new-privileges'', ''--cap-drop'', ''ALL'']
      @ (if \<not> network_enabled then [''--network'', ''none''] else [])
      @ [docker_image w]
      @ command)"

text \<open>\<open>self.config.get('timeout', 300)\<close>\<close>

definition timeout_of :: "DockerToolWrapper \<Rightarrow> int" where
  "timeout_of w = (case cfg_timeout (config w) of Some t \<Rightarrow> t | None \<Rightarrow> 300)"

definition kill_cmd :: "DockerToolWrapper \<Rightarrow> string list" where
  "kill_cmd w = [''docker'', ''kill'', container_name w]"

definition timeout_message :: "DockerToolWrapper \<Rightarrow> string" where
  "timeout_message w =
     ''Tool '' @ self_tool_name w @ '' timed out after '' @ str_int (timeout_of w) @ ''s''"

text \<open>
  \<open>run_in_container\<close>: on \<open>asyncio.TimeoutError\<close> it starts \<open>docker kill\<close> on the named
  container, without a timeout of its own, and raises \<open>TimeoutError\<close>.
\<close>

definition run_in_container ::
    "world \<Rightarrow> string list \<Rightarrow> string \<Rightarrow> string \<Rightarrow> (string \<times> string) list
       \<Rightarrow> (string \<times> string) list \<Rightarrow> bool \<Rightarrow> state
       \<Rightarrow> (string \<times> string \<times> int) result \<times> state" where
  "run_in_container env command host_path working_dir additional_volumes environment
       network_enabled s =
     (let w = wrapper s;
          cmd = docker_cmd w command host_path working_dir additional_volumes environment
                  network_enabled
      in case run_command env cmd (Some (timeout_of w)) True s of
           (Return r, s1) \<Rightarrow> (Return r, s1)
         | (Hang, s1) \<Rightarrow> (Hang, s1)
         | (Raise AsyncTimeoutError, s1) \<Rightarrow>
             (case run_command env (kill_cmd w) None True s1 of
                (Return r, s2) \<Rightarrow> (Raise (TimeoutError (timeout_message w)), s2)
              | (Raise e, s2) \<Rightarrow> (Raise e, s2)
              | (Hang, s2) \<Rightarrow> (Hang, s2))
         | (Raise e, s1) \<Rightarrow> (Raise e, s1))"

section \<open>The three \<open>analyze\<close> methods\<close>

definition SlitherWrapper_new :: "wrapper_config \<Rightarrow> string \<Rightarrow> DockerToolWrapper" where
  "SlitherWrapper_new cfg unique_id =
     DockerToolWrapper_new ''slither'' ''vulnhunter-slither:latest'' cfg unique_id"

definition MythrilWrapper_new :: "wrapper_config \<Rightarrow> string \<Rightarrow> DockerToolWrapper" where
  "MythrilWrapper_new cfg unique_id =
     DockerToolWrapper_new ''mythril'' ''vulnhunter-mythril:latest'' cfg unique_id"

definition EchidnaWrapper_new :: "wrapper_config \<Rightarrow> string \<Rightarrow> DockerToolWrapper" where
  "EchidnaWrapper_new cfg unique_id =
     DockerToolWrapper_new ''echidna'' ''vulnhunter-echidna:latest'' cfg unique_id"

text \<open>
  What the methods ask the file system about \<open>contract_path\<close>: its name, its absolute
  form and that of its parent, whether it is a file or a directory, the names matching
  \<open>*.sol\<close> in it, whether \<open>echidna/\<close> exists in it, and the matches (name and absolute
  parent) of \<open>Test*.sol\<close> in \<open>echidna/\<close> and of \<open>**/Test*.sol\<close>.
\<close>

record path_info =
  path_name :: string
  path_abs :: string
  parent_abs :: string
  is_file :: bool
  is_dir :: bool
  sol_files :: "string list"
  echidna_dir_exists :: bool
  echidna_dir_tests :: "(string \<times> string) list"
  tree_tests :: "(string \<times> string) list"

text \<open>
  The two \<open>except\<close> clauses at the end of each \<open>analyze\<close>: \<open>TimeoutError\<close> gives the
  status \<open>TIMEOUT\<close>, any other exception \<open>ERROR\<close>; \<open>label\<close> is the tool's name in the
  message. (\<open>asyncio.TimeoutError\<close> is the built-in \<open>TimeoutError\<close> since Python 3.11; it
  never leaves \<open>run_in_container\<close>.)
\<close>

definition on_exception :: "DockerToolWrapper \<Rightarrow> string \<Rightarrow> exn \<Rightarrow> ToolResult" where
  "on_exception w label e =
     (case e of
        TimeoutError msg \<Rightarrow>
          \<lparr> tool_name = self_tool_name w, status = TIMEOUT, findings = [],
            result_raw_output = None, error_message = Some msg \<rparr>
      | AsyncTimeoutError \<Rightarrow>
          \<lparr> tool_name = self_tool_name w, status = TIMEOUT, findings = [],
            result_raw_output = None, error_message = Some [] \<rparr>
      | Exception msg \<Rightarrow>
          \<lparr> tool_name = self_tool_name w, status = ERROR, findings = [],
            result_raw_output = None,
            error_message = Some (label @ '' analysis failed: '' @ msg) \<rparr>)"

definition slither_classify ::
    "pylib \<Rightarrow> DockerToolWrapper \<Rightarrow> string \<Rightarrow> string \<Rightarrow> int \<Rightarrow> ToolResult" where
  "slither_classify lib w stdout stderr returncode =
     (case slither_parse_wrapper_output lib stdout stderr of
        Inl e \<Rightarrow> on_exception w ''Slither'' e
      | Inr (Some fs) \<Rightarrow>
          \<lparr> tool_name = self_tool_name w, status = SUCCESS, findings = fs,
            result_raw_output = Some stdout, error_message = None \<rparr>
      | Inr None \<Rightarrow>
          if stdout \<noteq> [] \<and> (str_contains ''success'' stdout \<or> str_contains ''detectors'' stdout)
          then \<lparr> tool_name = self_tool_name w, status = SUCCESS, findings = [],
                 result_raw_output = Some stdout, error_message = None \<rparr>
          else \<lparr> tool_name = self_tool_name w, status = ERROR, findings = [],
                 result_raw_output = Some stdout,
                 error_message = Some (''Failed to parse Slither output. Stderr: ''
                                         @ take 200 stderr) \<rparr>)"

definition slither_analyze ::
    "world \<Rightarrow> pylib \<Rightarrow> path_info \<Rightarrow> state \<Rightarrow> ToolResult result \<times> state" where
  "slither_analyze env lib p s =
     (let w = wrapper s;
          target = (if is_file p then path_name p else ''.'');
          working_dir = (if is_file p then parent_abs p else path_abs p);
          command = [''python'', ''/usr/local/bin/slither-wrapper.py'', target]
      in case run_in_container env command working_dir ''/contracts'' [] [] False s of
           (Hang, s1) \<Rightarrow> (Hang, s1)
         | (Raise e, s1) \<Rightarrow> (Return (on_exception w ''Slither'' e), s1)
         | (Return (stdout, stderr, returncode), s1) \<Rightarrow>
             (Return (slither_classify lib w stdout stderr returncode), s1))"

definition mythril_classify ::
    "pylib \<Rightarrow> DockerToolWrapper \<Rightarrow> string \<Rightarrow> string \<Rightarrow> int \<Rightarrow> ToolResult" where
  "mythril_classify lib w stdout stderr returncode =
     (case mythril_parse_wrapper_output lib stdout stderr of
        Inl e \<Rightarrow> on_exception w ''Mythril'' e
      | Inr (Some fs) \<Rightarrow>
          \<lparr> tool_name = self_tool_name w, status = SUCCESS, findings = fs,
            result_raw_output = Some stdout, error_message = None \<rparr>
      | Inr None \<Rightarrow>
          if returncode = 0 \<and> str_contains ''The analysis was completed successfully'' stderr
          then \<lparr> tool_name = self_tool_name w, status = SUCCESS, findings = [],
                 result_raw_output = Some stdout, error_message = None \<rparr>
          else \<lparr> tool_name = self_tool_name w, status = ERROR, findings = [],
                 result_raw_output = Some stdout,
                 error_message = Some (''Mythril analysis failed. Stderr: ''
                                         @ take 500 stderr) \<rparr>)"

definition mythril_analyze ::
    "world \<Rightarrow> pylib \<Rightarrow> path_info \<Rightarrow> state \<Rightarrow> ToolResult result \<times> state" where
  "mythril_analyze env lib p s =
     (let w = wrapper s in
      if is_dir p \<and> sol_files p = [] then
        (Return \<lparr> tool_name = self_tool_name w, status = ERROR, findings = [],
                  result_raw_output = None,
                  error_message = Some ''No Solidity files found in directory'' \<rparr>, s)
      else
        let contract_file = (if is_dir p then hd (sol_files p) else path_name p);
            command = [''python'', ''/usr/local/bin/mythril-wrapper.py'', contract_file];
            mount = (if is_dir p then path_abs p else parent_abs p)
        in case run_in_container env command mount ''/contracts'' [] [] False s of
             (Hang, s1) \<Rightarrow> (Hang, s1)
           | (Raise e, s1) \<Rightarrow> (Return (on_exception w ''Mythril'' e), s1)
           | (Return (stdout, stderr, returncode), s1) \<Rightarrow>
               (Return (mythril_classify lib w stdout stderr returncode), s1))"

definition echidna_classify ::
    "pylib \<Rightarrow> DockerToolWrapper \<Rightarrow> string \<Rightarrow> string \<Rightarrow> int \<Rightarrow> ToolResult" where
  "echidna_classify lib w stdout stderr returncode =
     (case echidna_parse_wrapper_output lib stdout stderr of
        Inl e \<Rightarrow> on_exception w ''Echidna'' e
      | Inr (Some fs) \<Rightarrow>
          \<lparr> tool_name = self_tool_name w, status = SUCCESS, findings = fs,
            result_raw_output = Some (stdout @ [CHR 0x0A] @ stderr), error_message = None \<rparr>
      | Inr None \<Rightarrow>
          \<lparr> tool_name = self_tool_name w, status = ERROR, findings = [],
            result_raw_output = Some (stdout @ [CHR 0x0A] @ stderr),
            error_message = Some (''Echidna analysis failed. Stderr: '' @ take 500 stderr) \<rparr>)"

text \<open>The test contracts \<open>analyze\<close> finds for a directory.\<close>

definition test_files :: "path_info \<Rightarrow> (string \<times> string) list" where
  "test_files p = (if echidna_dir_exists p then echidna_dir_tests p else tree_tests p)"

definition echidna_analyze ::
    "world \<Rightarrow> pylib \<Rightarrow> path_info \<Rightarrow> state \<Rightarrow> ToolResult result \<times> state" where
  "echidna_analyze env lib p s =
     (let w = wrapper s in
      if is_dir p \<and> test_files p = [] then
        (Return \<lparr> tool_name = self_tool_name w, status = ERROR, findings = [],
                  result_raw_output = None,
                  error_message = Some ''No Echidna test contracts found (Test*.sol with echidna_ properties)'' \<rparr>, s)
      else
        let contract_file = (if is_dir p then fst (hd (test_files p)) else path_name p);
            working_dir = (if is_dir p then snd (hd (test_files p)) else parent_abs p);
            command = [''python'', ''/usr/local/bin/echidna-wrapper.py'', contract_file]
        in case run_in_container env command working_dir ''/contracts'' [] [] False s of
             (Hang, s1) \<Rightarrow> (Hang, s1)
           | (Raise e, s1) \<Rightarrow> (Return (on_exception w ''Echidna'' e), s1)
           | (Return (stdout, stderr, returncode), s1) \<Rightarrow>
               (Return (echidna_classify lib w stdout stderr returncode), s1))"

text \<open>The adapters behind the one interface \<open>analyze\<close>.\<close>

datatype adapter = Slither | Mythril | Echidna

fun parse_wrapper_output ::
    "adapter \<Rightarrow> pylib \<Rightarrow> string \<Rightarrow> string \<Rightarrow> exn + Finding list option" where
  "parse_wrapper_output Slither = slither_parse_wrapper_output"
| "parse_wrapper_output Mythril = mythril_parse_wrapper_output"
| "parse_wrapper_output Echidna = echidna_parse_wrapper_output"

fun analyze ::
    "adapter \<Rightarrow> world \<Rightarrow> pylib \<Rightarrow> path_info \<Rightarrow> state \<Rightarrow> ToolResult result \<times> state" where
  "analyze Slither = slither_analyze"
| "analyze Mythril = mythril_analyze"
| "analyze Echidna = echidna_analyze"

subsection \<open>The steps of \<open>analyze\<close>, by adapter\<close>

text \<open>
  The three methods share one shape: an early \<open>ERROR\<close> when a directory holds no
  candidate file, then the call of \<open>run_in_container\<close>, then the classification of what
  it returned. The functions below name these steps for any adapter.
\<close>

fun no_target :: "adapter \<Rightarrow> path_info \<Rightarrow> bool" where
  "no_target Slither p = False"
| "no_target Mythril p = (is_dir p \<and> sol_files p = [])"
| "no_target Echidna p = (is_dir p \<and> test_files p = [])"

fun sandbox_command :: "adapter \<Rightarrow> path_info \<Rightarrow> string list" where
  "sandbox_command Slither p =
     [''python'', ''/usr/local/bin/slither-wrapper.py'', if is_file p then path_name p else ''.'']"
| "sandbox_command Mythril p =
     [''python'', ''/usr/local/bin/mythril-wrapper.py'',
      if is_dir p then hd (sol_files p) else path_name p]"
| "sandbox_command Echidna p =
     [''python'', ''/usr/local/bin/echidna-wrapper.py'',
      if is_dir p then fst (hd (test_files p)) else path_name p]"

fun sandbox_mount :: "adapter \<Rightarrow> path_info \<Rightarrow> string" where
  "sandbox_mount Slither p = (if is_file p then parent_abs p else path_abs p)"
| "sandbox_mount Mythril p = (if is_dir p then path_abs p else parent_abs p)"
| "sandbox_mount Echidna p = (if is_dir p then snd (hd (test_files p)) else parent_abs p)"

definition sandbox_cmd :: "adapter \<Rightarrow> path_info \<Rightarrow> DockerToolWrapper \<Rightarrow> string list" where
  "sandbox_cmd a p w =
     docker_cmd w (sandbox_command a p) (sandbox_mount a p) ''/contracts'' [] [] False"

definition sandbox_run ::
    "adapter \<Rightarrow> world \<Rightarrow> path_info \<Rightarrow> state \<Rightarrow> (string \<times> string \<times> int) result \<times> state" where
  "sandbox_run a env p s =
     run_in_container env (sandbox_command a p) (sandbox_mount a p) ''/contracts'' [] [] False s"

fun classify ::
    "adapter \<Rightarrow> pylib \<Rightarrow> DockerToolWrapper \<Rightarrow> string \<Rightarrow> string \<Rightarrow> int \<Rightarrow> ToolResult" where
  "classify Slither = slither_classify"
| "classify Mythril = mythril_classify"
| "classify Echidna = echidna_classify"

fun label :: "adapter \<Rightarrow> string" where
  "label Slither = ''Slither''"
| "label Mythril = ''Mythril''"
| "label Echidna = ''Echidna''"

subsection \<open>Example runs\<close>

definition config0 :: wrapper_config where
  "config0 = \<lparr> cfg_timeout = None, cfg_max_memory_mb = None, cfg_max_cpus = None \<rparr>"

definition fresh :: "DockerToolWrapper \<Rightarrow> state" where
  "fresh w = \<lparr> wrapper = w, commands = [] \<rparr>"

definition uid0 :: string where
  "uid0 = ''1730000000000000-4242''"

text \<open>A single contract file \<open>/work/Bank.sol\<close>.\<close>

definition bank_sol :: path_info where
  "bank_sol =
     \<lparr> path_name = ''Bank.sol'', path_abs = ''/work/Bank.sol'', parent_abs = ''/work'',
       is_file = True, is_dir = False, sol_files = [], echidna_dir_exists = False,
       echidna_dir_tests = [], tree_tests = [] \<rparr>"

text \<open>
  A tool that broke: the container prints a traceback, which is not JSON, and exits
  with code 2.
\<close>

definition traceback :: string where
  "traceback = ''Traceback (most recent call last): FileNotFoundError: solc''"

definition broken_tool :: world where
  "broken_tool = (\<lambda>cmd. Exits traceback ''exec failed'' 2)"

text \<open>
  The JSON of the Echidna wrapper for a run that found a violated property.
\<close>

definition echidna_report :: string where
  \<open>echidna_report =
     ''{"status": "success", "returncode": 1, "stdout": "echidna_balance: failed!", "stderr": "", "solc_version": "0.8.19"}''\<close>

definition echidna_report_json :: json where
  "echidna_report_json =
     JObj [ (''status'', JStr ''success''), (''returncode'', JInt 1),
            (''stdout'', JStr ''echidna_balance: failed!''), (''stderr'', JStr ''''),
            (''solc_version'', JStr ''0.8.19'') ]"

text \<open>
  The library on the texts of these examples: \<open>json.loads\<close> decodes the Echidna report and
  rejects the traceback; the "failed" pattern finds the one property.
\<close>

definition example_lib :: pylib where
  "example_lib =
     \<lparr> json_loads = map_of [(echidna_report, echidna_report_json)],
       failed_pattern =
         (\<lambda>s. if s = ''echidna_balance: failed!'' @ [CHR 0x0A] then [''balance''] else []),
       assertion_pattern = (\<lambda>s. []),
       py_str = (\<lambda>v. []) \<rparr>"

text \<open>
  A tool that does not finish: \<open>docker run\<close> is still running at the deadline,
  \<open>docker kill\<close> exits at once.
\<close>

definition never_finishes :: world where
  "never_finishes =
     (\<lambda>cmd. if take 2 cmd = [''docker'', ''kill''] then Exits [] [] 0 else Overruns)"

text \<open>A Slither wrapper just constructed, before any command.\<close>

definition slither0 :: state where
  "slither0 = fresh (SlitherWrapper_new config0 uid0)"

text \<open>A Slither wrapper configured with a timeout of 60 seconds.\<close>

definition config60 :: wrapper_config where
  "config60 = \<lparr> cfg_timeout = Some 60, cfg_max_memory_mb = None, cfg_max_cpus = None \<rparr>"

definition slither60 :: state where
  "slither60 = fresh (SlitherWrapper_new config60 uid0)"

text \<open>
  Two worlds in which the tool does not finish and \<open>docker kill\<close> does not exit either:
  it cannot be started, or it never ends.
\<close>

definition kill_cannot_start :: world where
  "kill_cannot_start =
     (\<lambda>cmd. if take 2 cmd = [''docker'', ''kill'']
            then SpawnError ''[Errno 24] Too many open files''
            else Overruns)"

definition daemon_unresponsive :: world where
  "daemon_unresponsive = (\<lambda>cmd. Overruns)"

text \<open>
  A Slither run that found a reentrancy. \<open>json_quote\<close> is a string as \<open>json.dumps\<close> writes
  it (quotes and backslashes escaped), \<open>printed\<close> the text of successive \<open>print\<close> calls, and
  \<open>tool_prints\<close> a world whose container prints a text and exits with a code.
\<close>

definition json_quote :: "string \<Rightarrow> string" where
  "json_quote s =
     [CHR 0x22]
     @ concat (map (\<lambda>c. if c = CHR 0x22 \<or> c = CHR 0x5C then [CHR 0x5C, c] else [c]) s)
     @ [CHR 0x22]"

definition printed :: "string list \<Rightarrow> string" where
  "printed ls = concat (map (\<lambda>l. l @ [CHR 0x0A]) ls)"

definition tool_prints :: "string \<Rightarrow> int \<Rightarrow> world" where
  "tool_prints out rc = (\<lambda>cmd. Exits out [] rc)"

text \<open>What \<open>slither --json -\<close> writes, and its decoding.\<close>

definition slither_report :: string where
  \<open>slither_report =
     ''{"success": true, "error": null, "results": {"detectors": [{"check": "reentrancy-eth", "impact": "High", "confidence": "Medium", "description": "Reentrancy in Bank.withdraw()", "elements": []}]}}''\<close>

definition slither_report_json :: json where
  "slither_report_json =
     JObj [ (''success'', JBool True), (''error'', JNull),
            (''results'',
               JObj [ (''detectors'',
                         JArr [ JObj [ (''check'', JStr ''reentrancy-eth''),
                                       (''impact'', JStr ''High''),
                                       (''confidence'', JStr ''Medium''),
                                       (''description'', JStr ''Reentrancy in Bank.withdraw()''),
                                       (''elements'', JArr []) ] ]) ]) ]"

text \<open>
  What \<open>json.dumps(result, indent=2)\<close> gives for the wrapper's result, its decoding, and the
  whole standard output of slither-wrapper.py: the two log lines of \<open>run_slither\<close>, then the
  JSON.
\<close>

definition slither_wrapper_json_text :: string where
  \<open>slither_wrapper_json_text =
     printed
       [ ''{'',
         ''  "status": "success",'',
         ''  "returncode": 1,'',
         ''  "stdout": '' @ json_quote slither_report @ '','',
         ''  "stderr": "",'',
         ''  "solc_version": "0.8.19"'',
         ''}'' ]\<close>

definition slither_wrapper_json :: json where
  "slither_wrapper_json =
     JObj [ (''status'', JStr ''success''), (''returncode'', JInt 1),
            (''stdout'', JStr slither_report), (''stderr'', JStr ''''),
            (''solc_version'', JStr ''0.8.19'') ]"

definition slither_wrapper_stdout :: string where
  "slither_wrapper_stdout =
     printed [''Analyzing contract: Bank.sol'', ''Using Solidity compiler: 0.8.19'']
     @ slither_wrapper_json_text"

text \<open>
  \<open>json.loads\<close> on these texts: it decodes the two JSON texts and rejects the output that
  starts with a log line.
\<close>

definition slither_lib :: pylib where
  "slither_lib =
     \<lparr> json_loads = map_of [ (slither_wrapper_json_text, slither_wrapper_json),
                              (slither_report, slither_report_json) ],
       failed_pattern = (\<lambda>s. []),
       assertion_pattern = (\<lambda>s. []),
       py_str = (\<lambda>v. []) \<rparr>"

section \<open>Well-formed tool issues and their categories\<close>

text \<open>
  Issues as the tools emit them: objects whose fields, where present, have the JSON
  types of the tool's report. A Slither detector has text fields \<open>check\<close>, \<open>impact\<close>,
  \<open>confidence\<close> and \<open>description\<close>, and a list \<open>elements\<close> of objects with a text \<open>source\<close>
  and a \<open>source_mapping\<close> holding a text \<open>filename\<close> and a list of integer \<open>lines\<close>.
\<close>

fun is_str :: "json \<Rightarrow> bool" where
  "is_str (JStr s) = True"
| "is_str v = False"

fun is_int :: "json \<Rightarrow> bool" where
  "is_int (JInt i) = True"
| "is_int v = False"

definition opt_field :: "(json \<Rightarrow> bool) \<Rightarrow> (string \<times> json) list \<Rightarrow> string \<Rightarrow> bool" where
  "opt_field ok kvs k = (case map_of kvs k of None \<Rightarrow> True | Some v \<Rightarrow> ok v)"

fun wf_lines :: "json \<Rightarrow> bool" where
  "wf_lines (JArr xs) = list_all is_int xs"
| "wf_lines v = False"

fun wf_source_mapping :: "json \<Rightarrow> bool" where
  "wf_source_mapping (JObj kvs) = (opt_field is_str kvs ''filename'' \<and> opt_field wf_lines kvs ''lines'')"
| "wf_source_mapping v = False"

fun wf_element :: "json \<Rightarrow> bool" where
  "wf_element (JObj kvs) =
     (opt_field is_str kvs ''source'' \<and> opt_field wf_source_mapping kvs ''source_mapping'')"
| "wf_element v = False"

fun wf_elements :: "json \<Rightarrow> bool" where
  "wf_elements (JArr es) = list_all wf_element es"
| "wf_elements v = False"

fun wf_detector :: "json \<Rightarrow> bool" where
  "wf_detector (JObj kvs) =
     (opt_field is_str kvs ''check'' \<and> opt_field is_str kvs ''impact'' \<and>
      opt_field is_str kvs ''confidence'' \<and> opt_field is_str kvs ''description'' \<and>
      opt_field wf_elements kvs ''elements'')"
| "wf_detector v = False"

text \<open>
  The type the specification gives to a category: the entry of the fixed table, and
  \<open>unknown\<close> for a category the table does not hold.
\<close>

definition table_type :: "(string \<rightharpoonup> VulnerabilityType) \<Rightarrow> string \<Rightarrow> VulnerabilityType" where
  "table_type tbl category = (case tbl category of Some t \<Rightarrow> t | None \<Rightarrow> UNKNOWN)"

text \<open>The category of a Slither detector: its \<open>check\<close>.\<close>

fun slither_category :: "json \<Rightarrow> string" where
  "slither_category (JObj kvs) =
     (case map_of kvs ''check'' of Some (JStr c) \<Rightarrow> c | _ \<Rightarrow> ''unknown'')"
| "slither_category v = ''unknown''"

text \<open>
  A Mythril issue has text fields \<open>swc-id\<close> (or \<open>swcID\<close>), \<open>title\<close>, \<open>description\<close>,
  \<open>severity\<close>, \<open>filename\<close> and \<open>code\<close>, and an integer \<open>lineno\<close>.
\<close>

fun wf_issue :: "json \<Rightarrow> bool" where
  "wf_issue (JObj kvs) =
     (opt_field is_str kvs ''swc-id'' \<and> opt_field is_str kvs ''swcID'' \<and>
      opt_field is_int kvs ''lineno'' \<and> opt_field is_str kvs ''filename'' \<and>
      opt_field is_str kvs ''code'' \<and> opt_field is_str kvs ''title'' \<and>
      opt_field is_str kvs ''description'' \<and> opt_field is_str kvs ''severity'')"
| "wf_issue v = False"

text \<open>The category of a Mythril issue: \<open>issue.get("swc-id") or issue.get("swcID") or ""\<close>.\<close>

fun mythril_category :: "json \<Rightarrow> string" where
  "mythril_category (JObj kvs) =
     (case py_or (py_or (case map_of kvs ''swc-id'' of Some v \<Rightarrow> v | None \<Rightarrow> JNull)
                        (case map_of kvs ''swcID'' of Some v \<Rightarrow> v | None \<Rightarrow> JNull))
                 (JStr '''') of
        JStr s \<Rightarrow> s
      | _ \<Rightarrow> '''')"
| "mythril_category v = ''''"

text \<open>A match of the assertion pattern whose second group \<open>int\<close> accepts.\<close>

definition has_line :: "string \<times> string \<Rightarrow> bool" where
  "has_line m = (py_int (snd m) \<noteq> None)"

text \<open>
  An Echidna test of the JSON report counts as failed when its \<open>status\<close> is "failed" or
  its \<open>passed\<close> equals \<open>False\<close>; its type comes from its name without \<open>echidna_\<close>.
\<close>

fun test_failed :: "json \<Rightarrow> bool" where
  "test_failed (JObj kvs) =
     (map_of kvs ''status'' = Some (JStr ''failed'') \<or>
      eq_False (case map_of kvs ''passed'' of Some v \<Rightarrow> v | None \<Rightarrow> JNull))"
| "test_failed v = False"

definition test_type :: "string \<times> json \<Rightarrow> VulnerabilityType" where
  "test_type t = keyword_type property_to_vuln_type (remove_all ''echidna_'' (fst t))"

subsection \<open>Example issues\<close>

text \<open>Two Slither detectors: a reentrancy and a check the table does not hold.\<close>

definition example_detectors :: "json list" where
  "example_detectors =
     [ JObj [ (''check'', JStr ''reentrancy-eth''), (''impact'', JStr ''High''),
              (''confidence'', JStr ''Medium''),
              (''description'', JStr ''Reentrancy in Bank.withdraw()''),
              (''elements'',
                 JArr [ JObj [ (''source'', JStr ''function withdraw()''),
                               (''source_mapping'',
                                  JObj [ (''filename'', JStr ''Bank.sol''),
                                         (''lines'', JArr [JInt 12, JInt 13, JInt 14]) ]) ] ]) ],
       JObj [ (''check'', JStr ''cache-array-length''), (''impact'', JStr ''Optimization''),
              (''confidence'', JStr ''High''), (''description'', JStr ''Loop reads length''),
              (''elements'', JArr []) ] ]"

text \<open>Two Mythril issues: SWC-107 and an id the table does not hold.\<close>

definition example_issues :: "json list" where
  "example_issues =
     [ JObj [ (''swc-id'', JStr ''SWC-107''), (''title'', JStr ''External Call''),
              (''description'', JStr ''A call to a user-supplied address is executed.''),
              (''severity'', JStr ''High''), (''lineno'', JInt 12),
              (''filename'', JStr ''Bank.sol''), (''code'', JStr ''msg.sender.call'') ],
       JObj [ (''swc-id'', JStr ''SWC-123''), (''title'', JStr ''Requirement violation''),
              (''description'', JStr ''A requirement was violated.''),
              (''severity'', JStr ''Medium'') ] ]"

text \<open>Three tests of an Echidna JSON report: two failed, one passed.\<close>

definition example_tests :: "(string \<times> json) list" where
  "example_tests =
     [ (''echidna_balance_safe'', JObj [(''status'', JStr ''failed'')]),
       (''echidna_owner_set'', JObj [(''status'', JStr ''passed''), (''passed'', JBool True)]),
       (''echidna_total_fixed'', JObj [(''passed'', JBool False)]) ]"

text \<open>The first issue, and the first detector, next to an entry that is plain text.\<close>

definition mixed_issues :: "json list" where
  "mixed_issues = [JStr ''analysis incomplete'', hd example_issues]"

definition mixed_detectors :: "json list" where
  "mixed_detectors = [hd example_detectors, JStr ''analysis incomplete'']"
section \<open>Properties of the report model\<close>

lemma weight_of_eq: "weight_of s = spec_weight s"
  by (cases s) (simp_all add: weight_of_def severity_weights_def)

lemma weight_of_nonneg: "0 \<le> weight_of s" "weight_of s \<le> 10"
  by (cases s; simp add: weight_of_def severity_weights_def)+

lemma weight_of_mono: "severity_rank a < severity_rank b \<Longrightarrow> weight_of a \<le> weight_of b"
  by (cases a; cases b; simp add: weight_of_def severity_weights_def)

lemma total_nonneg:
  "\<forall>v\<in>set vs. 0 \<le> confidence v \<Longrightarrow> 0 \<le> (\<Sum>v\<leftarrow>vs. weight_of (severity v) * confidence v)"
  by (induction vs) (auto simp: weight_of_nonneg)

lemma risk_score_unfold:
  "vulnerabilities r \<noteq> [] \<Longrightarrow>
   calculate_risk_score r =
     min 10 (10 * (\<Sum>v\<leftarrow>vulnerabilities r. weight_of (severity v) * confidence v)
                / (10 * real (length (vulnerabilities r))))"
  by (simp add: calculate_risk_score_def Let_def)

text \<open>
  Claim C3. \<open>calculate_risk_score\<close> is 0 on a report without vulnerabilities; otherwise it
  is \<open>min(10, 10 * (sum of weight(severity) * confidence) / (10 * number of findings))\<close>
  with the weights critical 10, high 7.5, medium 5, low 2.5, info 0.5; and the score lies
  in [0, 10]. The bound is stated for confidences that are not negative, which the data
  model asks of every finding (confidence in [0, 1]).
\<close>

theorem calculate_risk_score_formula:
  assumes "\<forall>v\<in>set (vulnerabilities r). 0 \<le> confidence v"
  shows "(vulnerabilities r = [] \<longrightarrow> calculate_risk_score r = 0) \<and>
         (vulnerabilities r \<noteq> [] \<longrightarrow>
            calculate_risk_score r =
              min 10 (10 * (\<Sum>v\<leftarrow>vulnerabilities r. spec_weight (severity v) * confidence v)
                         / (10 * real (length (vulnerabilities r))))) \<and>
         0 \<le> calculate_risk_score r \<and> calculate_risk_score r \<le> 10"
proof (cases "vulnerabilities r = []")
  case True
  then show ?thesis by (simp add: calculate_risk_score_def)
next
  case False
  have tot: "0 \<le> (\<Sum>v\<leftarrow>vulnerabilities r. weight_of (severity v) * confidence v)"
    using assms by (rule total_nonneg)
  have len: "0 < real (length (vulnerabilities r))" using False by simp
  have "0 \<le> 10 * (\<Sum>v\<leftarrow>vulnerabilities r. weight_of (severity v) * confidence v)
                / (10 * real (length (vulnerabilities r)))"
    using tot len by simp
  then show ?thesis
    using False by (simp add: risk_score_unfold weight_of_eq)
qed

theorem calculate_risk_score_formula_witness:
  "vulnerabilities report_two = [finding_medium, finding_low] \<and>
   0 \<le> confidence finding_medium \<and> 0 \<le> confidence finding_low \<and>
   calculate_risk_score report_two = 3 \<and>
   calculate_risk_score report_two
     = min 10 (10 * (spec_weight MEDIUM * 0.8 + spec_weight LOW * 0.8) / (10 * 2))"
  using calculate_risk_score_formula [of report_two]
  by (simp add: report_two_def AnalysisReport_new_def finding_medium_def finding_low_def)

lemma total_le:
  "\<forall>v\<in>set vs. confidence v = c \<Longrightarrow> 0 \<le> c \<Longrightarrow> \<forall>v\<in>set vs. weight_of (severity v) \<le> w \<Longrightarrow>
   (\<Sum>v\<leftarrow>vs. weight_of (severity v) * confidence v) \<le> real (length vs) * (w * c)"
proof (induction vs)
  case Nil
  then show ?case by simp
next
  case (Cons a vs)
  have "weight_of (severity a) * c \<le> w * c"
    using Cons.prems by (simp add: mult_right_mono)
  moreover have "(\<Sum>v\<leftarrow>vs. weight_of (severity v) * confidence v) \<le> real (length vs) * (w * c)"
    using Cons by simp
  ultimately show ?case using Cons.prems by (simp add: algebra_simps)
qed

lemma risk_score_avg:
  "vulnerabilities r \<noteq> [] \<Longrightarrow>
   calculate_risk_score r =
     min 10 ((\<Sum>v\<leftarrow>vulnerabilities r. weight_of (severity v) * confidence v)
                / real (length (vulnerabilities r)))"
  by (simp add: calculate_risk_score_def Let_def)

lemma avg_step:
  fixes S x :: real
  assumes "0 < n" "S \<le> n * x"
  shows "S / n \<le> (S + x) / (n + 1)"
proof -
  have "S * (n + 1) \<le> (S + x) * n" using assms by (simp add: algebra_simps)
  then show ?thesis using assms by (simp add: field_simps)
qed

text \<open>
  Claim C4. In a report whose findings all carry one confidence value \<open>c\<close>, appending a
  finding of that confidence whose severity ranks above the severity of every finding already
  present never decreases \<open>calculate_risk_score\<close>.
\<close>

theorem risk_score_monotone:
  assumes conf: "\<forall>v\<in>set (vulnerabilities r). confidence v = c" "confidence f = c" "0 \<le> c"
      and higher: "\<forall>v\<in>set (vulnerabilities r). severity_rank (severity v) < severity_rank (severity f)"
  shows "calculate_risk_score r
           \<le> calculate_risk_score (r\<lparr>vulnerabilities := vulnerabilities r @ [f]\<rparr>)"
proof (cases "vulnerabilities r = []")
  case True
  have "0 \<le> weight_of (severity f) * c" using conf weight_of_nonneg by simp
  then show ?thesis using True conf
    by (simp add: calculate_risk_score_def)
next
  case False
  let ?vs = "vulnerabilities r"
  let ?S = "\<Sum>v\<leftarrow>?vs. weight_of (severity v) * confidence v"
  let ?x = "weight_of (severity f) * c"
  have n: "0 < real (length ?vs)" using False by simp
  have "\<forall>v\<in>set ?vs. weight_of (severity v) \<le> weight_of (severity f)"
    using higher weight_of_mono by blast
  then have "?S \<le> real (length ?vs) * ?x"
    using conf total_le by blast
  then have "?S / real (length ?vs) \<le> (?S + ?x) / (real (length ?vs) + 1)"
    using n by (rule avg_step[rotated])
  then have "min 10 (?S / real (length ?vs)) \<le> min 10 ((?S + ?x) / (real (length ?vs) + 1))"
    by (simp add: min_le_iff_disj)
  moreover have "calculate_risk_score r = min 10 (?S / real (length ?vs))"
    using False by (rule risk_score_avg)
  moreover have "calculate_risk_score (r\<lparr>vulnerabilities := ?vs @ [f]\<rparr>)
                   = min 10 ((?S + ?x) / (real (length ?vs) + 1))"
    using conf by (simp add: risk_score_avg add.commute)
  ultimately show ?thesis by simp
qed

theorem risk_score_monotone_witness:
  "vulnerabilities report_two = [finding_medium, finding_low] \<and>
   confidence finding_medium = 0.8 \<and> confidence finding_low = 0.8 \<and>
   confidence finding_high = 0.8 \<and>
   severity_rank (severity finding_medium) < severity_rank (severity finding_high) \<and>
   severity_rank (severity finding_low) < severity_rank (severity finding_high) \<and>
   calculate_risk_score report_two = 3 \<and>
   calculate_risk_score (report_two\<lparr>vulnerabilities := vulnerabilities report_two @ [finding_high]\<rparr>) = 4 \<and>
   calculate_risk_score report_two
     \<le> calculate_risk_score (report_two\<lparr>vulnerabilities := vulnerabilities report_two @ [finding_high]\<rparr>)"
  using risk_score_monotone [of report_two "0.8" finding_high]
  by (simp add: report_two_def AnalysisReport_new_def finding_medium_def finding_low_def
        finding_high_def calculate_risk_score_def weight_of_def severity_weights_def)

text \<open>
  Claim C5, as stated, asks \<open>metrics.total_vulnerabilities = len(vulnerabilities)\<close> of every
  report. The two fields are independent in the model class: a report constructed with one
  vulnerability and the default metrics has a total of 0 and a list of length 1.
\<close>

theorem metrics_inconsistent_report:
  "\<not> metrics_consistent ((AnalysisReport_new ''Bank'') \<lparr> vulnerabilities := [finding_high] \<rparr>)"
  by (simp add: metrics_consistent_def AnalysisReport_new_def AnalysisMetrics_default_def)

text \<open>
  Claim C5, amended. A report constructed with the default fields, and the report that
  \<open>VulnHunterPipeline.analyze\<close> returns, satisfy
  \<open>metrics.total_vulnerabilities = len(vulnerabilities)\<close>: both sides are 0.
\<close>

theorem default_report_metrics_consistent:
  "metrics_consistent (AnalysisReport_new n) \<and> metrics_consistent (pipeline_analyze target config)"
  by (simp add: metrics_consistent_def pipeline_analyze_def AnalysisReport_new_def
        AnalysisMetrics_default_def)

section \<open>Order independence of the aggregation\<close>










section \<open>Properties of the adapters\<close>

lemma analyze_steps:
  "\<not> no_target a p \<Longrightarrow>
   analyze a env lib p s =
     (case sandbox_run a env p s of
        (Hang, s1) \<Rightarrow> (Hang, s1)
      | (Raise e, s1) \<Rightarrow> (Return (on_exception (wrapper s) (label a) e), s1)
      | (Return (out, err, rc), s1) \<Rightarrow> (Return (classify a lib (wrapper s) out err rc), s1))"
  by (cases a)
     (auto simp: slither_analyze_def mythril_analyze_def echidna_analyze_def sandbox_run_def Let_def
           split: prod.splits result.splits)

lemma analyze_no_target:
  "no_target a p \<Longrightarrow>
   \<exists>r. analyze a env lib p s = (Return r, s) \<and> status r = ERROR \<and> findings r = []"
  by (cases a) (auto simp: mythril_analyze_def echidna_analyze_def Let_def)

lemma status_on_exception: "status (on_exception w l e) = TIMEOUT \<or> status (on_exception w l e) = ERROR"
  by (cases e) (simp_all add: on_exception_def)

lemma status_classify:
  "status (classify a lib w out err rc) = SUCCESS \<or> status (classify a lib w out err rc) = TIMEOUT
   \<or> status (classify a lib w out err rc) = ERROR"
  using status_on_exception
  by (cases a)
     (auto simp: slither_classify_def mythril_classify_def echidna_classify_def
           split: sum.splits option.splits)

text \<open>
  Claim C9. Whenever \<open>analyze\<close> of an adapter (Slither, Mythril, Echidna) returns a
  \<open>ToolResult\<close>, its status is \<open>SUCCESS\<close>, \<open>TIMEOUT\<close> or \<open>ERROR\<close>; \<open>FAILED\<close> is never
  produced.
\<close>

theorem analyze_status:
  assumes "fst (analyze a env lib p s) = Return r"
  shows "status r \<in> {SUCCESS, TIMEOUT, ERROR} \<and> status r \<noteq> FAILED"
proof (cases "no_target a p")
  case True
  then show ?thesis using assms analyze_no_target[of a p env lib s] by auto
next
  case False
  show ?thesis
  proof (cases "sandbox_run a env p s")
    case (Pair res s1)
    show ?thesis
    proof (cases res)
      case (Return t)
      obtain out err rc where t: "t = (out, err, rc)" by (cases t)
      have "r = classify a lib (wrapper s) out err rc"
        using assms False Pair Return t by (simp add: analyze_steps)
      then show ?thesis using status_classify[of a lib "wrapper s" out err rc] by auto
    next
      case (Raise e)
      have "r = on_exception (wrapper s) (label a) e"
        using assms False Pair Raise by (simp add: analyze_steps)
      then show ?thesis using status_on_exception[of "wrapper s" "label a" e] by auto
    next
      case Hang
      then show ?thesis using assms False Pair by (simp add: analyze_steps)
    qed
  qed
qed

lemma run_command_wrapper: "wrapper (snd (run_command env cmd t c s)) = wrapper s"
  by (simp add: run_command_def Let_def split: proc.splits)

lemma run_command_commands: "commands (snd (run_command env cmd t c s)) = commands s @ [cmd]"
  by (simp add: run_command_def Let_def split: proc.splits)

lemma run_in_container_wrapper:
  "wrapper (snd (run_in_container env c h wd av en ne s)) = wrapper s"
  by (simp add: run_in_container_def run_command_def Let_def
           split: proc.splits prod.splits result.splits exn.splits)

lemma analyze_wrapper: "wrapper (snd (analyze a env lib p s)) = wrapper s"
proof (cases "no_target a p")
  case True
  then show ?thesis using analyze_no_target[of a p env lib s] by auto
next
  case False
  have "wrapper (snd (sandbox_run a env p s)) = wrapper s"
    by (simp add: sandbox_run_def run_in_container_wrapper)
  then show ?thesis using False
    by (auto simp: analyze_steps split: prod.splits result.splits)
qed

lemma initialize_container_id:
  "container_id (wrapper (snd (initialize env s))) = container_id (wrapper s)"
  by (simp add: initialize_def run_command_def set_initialized_def Let_def
           split: proc.splits prod.splits result.splits)

text \<open>
  Claim C10. A wrapper whose \<open>_container_id\<close> is \<open>None\<close> keeps it \<open>None\<close> across
  \<open>initialize\<close>, \<open>run_in_container\<close> and \<open>analyze\<close>; \<open>cleanup\<close> then starts no command (no
  \<open>docker stop\<close>, no \<open>docker rm\<close>) and leaves the wrapper unchanged.
\<close>

theorem container_id_stays_None:
  assumes "container_id (wrapper s) = None"
  shows "container_id (wrapper (snd (initialize env s))) = None \<and>
         container_id (wrapper (snd (run_in_container env c h wd av en ne s))) = None \<and>
         container_id (wrapper (snd (analyze a env lib p s))) = None \<and>
         cleanup env s = (Return (), s)"
  using assms
  by (simp add: initialize_container_id run_in_container_wrapper analyze_wrapper cleanup_def)

lemma run_in_container_timeout:
  assumes "timeout_of (wrapper s) \<noteq> 0"
      and "env (docker_cmd (wrapper s) c h wd av en ne) = Overruns"
      and "env (kill_cmd (wrapper s)) = Exits out err rc"
  shows "run_in_container env c h wd av en ne s =
           (Raise (TimeoutError (timeout_message (wrapper s))),
            s \<lparr> commands := commands s @ [docker_cmd (wrapper s) c h wd av en ne, kill_cmd (wrapper s)] \<rparr>)"
  using assms by (simp add: run_in_container_def run_command_def Let_def)

text \<open>
  Claim C8, as stated, promises the \<open>TIMEOUT\<close> result whenever the sandboxed command runs
  past its timeout. \<open>run_in_container\<close> awaits \<open>docker kill\<close> without a timeout and outside
  any \<open>try\<close>: when \<open>docker kill\<close> cannot be started its exception replaces the
  \<open>TimeoutError\<close> and \<open>analyze\<close> returns \<open>ERROR\<close>, and when \<open>docker kill\<close> does not end,
  \<open>analyze\<close> does not return.
\<close>

theorem kill_failure_breaks_timeout:
  "kill_cannot_start (sandbox_cmd Slither bank_sol (wrapper slither60)) = Overruns \<and>
   fst (sandbox_run Slither kill_cannot_start bank_sol slither60)
     = Raise (Exception ''[Errno 24] Too many open files'') \<and>
   fst (analyze Slither kill_cannot_start example_lib bank_sol slither60)
     = Return \<lparr> tool_name = ''slither'', status = ERROR, findings = [],
                result_raw_output = None,
                error_message = Some ''Slither analysis failed: [Errno 24] Too many open files'' \<rparr> \<and>
   fst (analyze Slither daemon_unresponsive example_lib bank_sol slither60) = Hang"
  by (simp add: slither_analyze_def sandbox_run_def sandbox_cmd_def run_in_container_def
        run_command_def Let_def kill_cannot_start_def daemon_unresponsive_def docker_cmd_def
        kill_cmd_def timeout_of_def on_exception_def slither60_def fresh_def
        SlitherWrapper_new_def DockerToolWrapper_new_def config60_def bank_sol_def)

text \<open>
  Claim C8, amended. When the sandboxed command is still running at the configured timeout
  (a \<open>timeout\<close> entry other than 0, or the default of 300 seconds) and the \<open>docker kill\<close> it
  then starts on the named container exits, \<open>run_in_container\<close> raises \<open>TimeoutError\<close>, an
  exception and not a return code, and \<open>analyze\<close> returns a result with status \<open>TIMEOUT\<close>
  and no findings, whose message names the configured timeout.
\<close>

theorem timeout_kills_container:
  assumes "\<not> no_target a p"
      and "cfg_timeout (config (wrapper s)) \<noteq> Some 0"
      and "env (sandbox_cmd a p (wrapper s)) = Overruns"
      and "env [''docker'', ''kill'', container_name (wrapper s)] = Exits out err rc"
  shows "sandbox_run a env p s =
           (Raise (TimeoutError
                     (''Tool '' @ self_tool_name (wrapper s) @ '' timed out after ''
                        @ str_int (case cfg_timeout (config (wrapper s)) of
                                     Some t \<Rightarrow> t | None \<Rightarrow> 300) @ ''s'')),
            s \<lparr> commands := commands s @ [sandbox_cmd a p (wrapper s),
                                          [''docker'', ''kill'', container_name (wrapper s)]] \<rparr>) \<and>
         (\<exists>r. analyze a env lib p s =
                (Return r,
                 s \<lparr> commands := commands s @ [sandbox_cmd a p (wrapper s),
                                               [''docker'', ''kill'', container_name (wrapper s)]] \<rparr>) \<and>
              status r = TIMEOUT \<and> findings r = [] \<and>
              error_message r =
                Some (''Tool '' @ self_tool_name (wrapper s) @ '' timed out after ''
                        @ str_int (case cfg_timeout (config (wrapper s)) of
                                     Some t \<Rightarrow> t | None \<Rightarrow> 300) @ ''s''))"
proof -
  have t: "timeout_of (wrapper s) \<noteq> 0"
    using assms(2) by (cases "cfg_timeout (config (wrapper s))") (auto simp: timeout_of_def)
  have k: "env (kill_cmd (wrapper s)) = Exits out err rc"
    using assms(4) by (simp add: kill_cmd_def)
  have run: "sandbox_run a env p s =
           (Raise (TimeoutError (timeout_message (wrapper s))),
            s \<lparr> commands := commands s @ [sandbox_cmd a p (wrapper s), kill_cmd (wrapper s)] \<rparr>)"
    using t assms(3) k unfolding sandbox_run_def sandbox_cmd_def
    by (rule run_in_container_timeout)
  then show ?thesis using assms(1)
    by (simp add: analyze_steps on_exception_def timeout_message_def timeout_of_def kill_cmd_def)
qed

lemma loads_traceback: "json_loads example_lib traceback = None"
  by (simp add: example_lib_def traceback_def echidna_report_def)

text \<open>
  Claim C1 asks for status \<open>ERROR\<close> when the output cannot be parsed, no success marker
  is present and the exit code is not 0. On a traceback with exit code 2, every adapter
  returns \<open>SUCCESS\<close> with no findings: \<open>_parse_wrapper_output\<close> turns the
  \<open>JSONDecodeError\<close> into an empty list, and \<open>analyze\<close> takes any list for parsed output.
\<close>

theorem unparseable_output_classified_success:
  "fst (analyze Slither broken_tool example_lib bank_sol (fresh (SlitherWrapper_new config0 uid0)))
     = Return \<lparr> tool_name = ''slither'', status = SUCCESS, findings = [],
                result_raw_output = Some traceback, error_message = None \<rparr> \<and>
   fst (analyze Mythril broken_tool example_lib bank_sol (fresh (MythrilWrapper_new config0 uid0)))
     = Return \<lparr> tool_name = ''mythril'', status = SUCCESS, findings = [],
                result_raw_output = Some traceback, error_message = None \<rparr> \<and>
   fst (analyze Echidna broken_tool example_lib bank_sol (fresh (EchidnaWrapper_new config0 uid0)))
     = Return \<lparr> tool_name = ''echidna'', status = SUCCESS, findings = [],
                result_raw_output = Some (traceback @ [CHR 0x0A] @ ''exec failed''),
                error_message = None \<rparr>"
  by (simp add: slither_analyze_def mythril_analyze_def echidna_analyze_def run_in_container_def run_command_def Let_def
        broken_tool_def fresh_def bank_sol_def timeout_of_def config0_def
        SlitherWrapper_new_def MythrilWrapper_new_def EchidnaWrapper_new_def DockerToolWrapper_new_def
        slither_classify_def mythril_classify_def echidna_classify_def
        slither_parse_wrapper_output_def mythril_parse_wrapper_output_def
        echidna_parse_wrapper_output_def loads_traceback)

lemma slither0_wrapper:
  "wrapper slither0 = SlitherWrapper_new config0 uid0" "commands slither0 = []"
  by (simp_all add: slither0_def fresh_def)

lemma broken_slither:
  "fst (analyze Slither broken_tool example_lib bank_sol slither0)
     = Return \<lparr> tool_name = ''slither'', status = SUCCESS, findings = [],
                result_raw_output = Some traceback, error_message = None \<rparr>"
  by (simp add: slither_analyze_def run_in_container_def run_command_def Let_def
        broken_tool_def slither0_def fresh_def bank_sol_def timeout_of_def config0_def
        SlitherWrapper_new_def DockerToolWrapper_new_def slither_classify_def
        slither_parse_wrapper_output_def loads_traceback)

theorem analyze_status_witness:
  "fst (analyze Slither broken_tool example_lib bank_sol slither0)
     = Return \<lparr> tool_name = ''slither'', status = SUCCESS, findings = [],
                result_raw_output = Some traceback, error_message = None \<rparr> \<and>
   status \<lparr> tool_name = ''slither'', status = SUCCESS, findings = [],
            result_raw_output = Some traceback, error_message = None \<rparr> \<in> {SUCCESS, TIMEOUT, ERROR}"
  using analyze_status [OF broken_slither] broken_slither by simp

lemma str_int_60: "str_int 60 = ''60''"
  by (simp add: str_int_def)

lemma slither60_fields:
  "cfg_timeout (config (wrapper slither60)) = Some 60"
  "self_tool_name (wrapper slither60) = ''slither''"
  "container_name (wrapper slither60) = ''vulnhunter-slither-1730000000000000-4242''"
  "commands slither60 = []"
  by (simp_all add: slither60_def fresh_def SlitherWrapper_new_def DockerToolWrapper_new_def
        config60_def uid0_def)

lemma never_finishes_run60:
  "never_finishes (sandbox_cmd Slither bank_sol (wrapper slither60)) = Overruns"
  by (simp add: never_finishes_def sandbox_cmd_def docker_cmd_def)

lemma never_finishes_kill60:
  "never_finishes [''docker'', ''kill'', container_name (wrapper slither60)] = Exits [] [] 0"
  by (simp add: never_finishes_def)

theorem timeout_kills_container_witness:
  "cfg_timeout (config (wrapper slither60)) = Some 60 \<and>
   never_finishes (sandbox_cmd Slither bank_sol (wrapper slither60)) = Overruns \<and>
   never_finishes [''docker'', ''kill'', ''vulnhunter-slither-1730000000000000-4242''] = Exits [] [] 0 \<and>
   fst (sandbox_run Slither never_finishes bank_sol slither60)
     = Raise (TimeoutError ''Tool slither timed out after 60s'') \<and>
   commands (snd (sandbox_run Slither never_finishes bank_sol slither60))
     = [sandbox_cmd Slither bank_sol (wrapper slither60),
        [''docker'', ''kill'', ''vulnhunter-slither-1730000000000000-4242'']] \<and>
   (\<exists>r. fst (analyze Slither never_finishes example_lib bank_sol slither60) = Return r \<and>
        status r = TIMEOUT \<and> findings r = [] \<and>
        error_message r = Some ''Tool slither timed out after 60s'')"
proof -
  have nt: "\<not> no_target Slither bank_sol" by simp
  have t: "cfg_timeout (config (wrapper slither60)) \<noteq> Some 0" by (simp add: slither60_fields)
  show ?thesis
    using timeout_kills_container [OF nt t never_finishes_run60 never_finishes_kill60, of example_lib]
          never_finishes_run60 never_finishes_kill60
    by (auto simp: slither60_fields str_int_60)
qed

theorem container_id_stays_None_witness:
  "container_id (wrapper slither0) = None \<and>
   container_id (wrapper (snd (initialize broken_tool slither0))) = None \<and>
   container_id (wrapper (snd (analyze Slither broken_tool example_lib bank_sol slither0))) = None \<and>
   cleanup broken_tool slither0 = (Return (), slither0)"
proof -
  have h: "container_id (wrapper slither0) = None"
    by (simp add: slither0_def fresh_def SlitherWrapper_new_def DockerToolWrapper_new_def)
  show ?thesis
    using container_id_stays_None [OF h, of broken_tool "[]" "[]" "[]" "[]" "[]" False
            Slither example_lib bank_sol] h
    by simp
qed

section \<open>Properties of the parsers\<close>

lemma is_strE: "is_str v \<Longrightarrow> \<exists>s. v = JStr s" by (cases v) auto

lemma is_intE: "is_int v \<Longrightarrow> \<exists>i. v = JInt i" by (cases v) auto

lemma opt_str_get:
  "opt_field is_str kvs k \<Longrightarrow> \<exists>s. dict_get (JObj kvs) k (JStr d) = Some (JStr s)"
  by (auto simp: opt_field_def split: option.splits dest: is_strE)

lemma seq_index_first: "xs \<noteq> [] \<Longrightarrow> seq_index xs 0 = Some (hd xs)"
  by (cases xs) (simp_all add: seq_index_def)

lemma seq_index_last: "xs \<noteq> [] \<Longrightarrow> seq_index xs (- 1) = Some (last xs)"
  by (cases xs rule: rev_cases) (simp_all add: seq_index_def nth_append)

lemma wf_lines_pick:
  assumes "wf_lines ls" "truthy ls"
  shows "\<exists>i j. py_index ls 0 = Some (JInt i) \<and> py_index ls (- 1) = Some (JInt j)"
proof -
  obtain xs where ls: "ls = JArr xs" and xs: "list_all is_int xs" "xs \<noteq> []"
    using assms by (cases ls) auto
  have "is_int (hd xs)" "is_int (last xs)" using xs by (auto simp: list_all_iff)
  then show ?thesis using ls xs by (auto simp: seq_index_first seq_index_last dest!: is_intE)
qed

lemma location_of_source_mapping:
  assumes "wf_source_mapping sm" "truthy sm" "opt_field is_str ekvs ''source''"
  shows "\<exists>loc. do {
            fp \<leftarrow> dict_get sm ''filename'' (JStr '''');
            lines \<leftarrow> dict_get sm ''lines'' JNull;
            sl \<leftarrow> (if truthy lines
                   then do { ls \<leftarrow> dict_get sm ''lines'' (JArr [JInt 0]); py_index ls 0 }
                   else Some (JInt 0));
            el \<leftarrow> (if truthy lines
                   then do { ls \<leftarrow> dict_get sm ''lines'' (JArr [JInt 0]); py_index ls (- 1) }
                   else Some (JInt 0));
            cs \<leftarrow> dict_get (JObj ekvs) ''source'' (JStr '''');
            loc \<leftarrow> VulnerabilityLocation_new fp sl el cs;
            Some (Some loc)
          } = Some (Some loc)"
proof -
  obtain kvs where sm: "sm = JObj kvs" and f: "opt_field is_str kvs ''filename''"
      and l: "opt_field wf_lines kvs ''lines''"
    using assms(1) by (cases sm) auto
  obtain fp where fp: "dict_get sm ''filename'' (JStr '''') = Some (JStr fp)"
    using opt_str_get[OF f] sm by auto
  obtain cs where cs: "dict_get (JObj ekvs) ''source'' (JStr '''') = Some (JStr cs)"
    using opt_str_get[OF assms(3)] by auto
  show ?thesis
  proof (cases "map_of kvs ''lines''")
    case None
    then show ?thesis using fp cs sm by (simp add: VulnerabilityLocation_new_def)
  next
    case (Some ls)
    then have wl: "wf_lines ls" using l by (simp add: opt_field_def)
    show ?thesis
    proof (cases "truthy ls")
      case True
      obtain i j where "py_index ls 0 = Some (JInt i)" "py_index ls (- 1) = Some (JInt j)"
        using wf_lines_pick[OF wl True] by auto
      then show ?thesis using fp cs sm Some True by (simp add: VulnerabilityLocation_new_def)
    next
      case False
      then show ?thesis using fp cs sm Some by (simp add: VulnerabilityLocation_new_def)
    qed
  qed
qed

lemma slither_location_wf:
  assumes "wf_elements els"
  shows "\<exists>l. slither_location els = Some l"
proof -
  obtain es where els: "els = JArr es" and es: "list_all wf_element es"
    using assms by (cases els) auto
  show ?thesis
  proof (cases es)
    case Nil
    then show ?thesis using els by (simp add: slither_location_def)
  next
    case (Cons e rest)
    then have "wf_element e" using es by simp
    then obtain ekvs where e: "e = JObj ekvs" and src: "opt_field is_str ekvs ''source''"
        and smf: "opt_field wf_source_mapping ekvs ''source_mapping''"
      by (cases e) auto
    define sm where "sm = (case map_of ekvs ''source_mapping'' of Some v \<Rightarrow> v | None \<Rightarrow> JObj [])"
    have get: "dict_get e ''source_mapping'' (JObj []) = Some sm"
      using e by (simp add: sm_def)
    have idx: "py_index els 0 = Some e" using els Cons by (simp add: seq_index_def)
    show ?thesis
    proof (cases "truthy sm")
      case False
      then show ?thesis using els Cons idx get
        by (simp add: slither_location_def)
    next
      case True
      then have "wf_source_mapping sm"
        using smf by (auto simp: sm_def opt_field_def split: option.splits)
      from location_of_source_mapping[OF this True src] obtain loc where
        "do {
            fp \<leftarrow> dict_get sm ''filename'' (JStr '''');
            lines \<leftarrow> dict_get sm ''lines'' JNull;
            sl \<leftarrow> (if truthy lines
                   then do { ls \<leftarrow> dict_get sm ''lines'' (JArr [JInt 0]); py_index ls 0 }
                   else Some (JInt 0));
            el \<leftarrow> (if truthy lines
                   then do { ls \<leftarrow> dict_get sm ''lines'' (JArr [JInt 0]); py_index ls (- 1) }
                   else Some (JInt 0));
            cs \<leftarrow> dict_get (JObj ekvs) ''source'' (JStr '''');
            loc \<leftarrow> VulnerabilityLocation_new fp sl el cs;
            Some (Some loc)
          } = Some (Some loc)" by blast
      then show ?thesis using els Cons idx get True e
        by (simp add: slither_location_def)
    qed
  qed
qed

lemma table_get_str: "table_get tbl (JStr s) d = Some (case tbl s of Some v \<Rightarrow> v | None \<Rightarrow> d)"
  by (simp add: table_get_def)

lemma slither_detector_finding_wf:
  assumes "wf_detector d"
  shows "\<exists>f. slither_detector_finding d = Some f \<and>
             vulnerability_type f = table_type detector_mapping (slither_category d)"
proof -
  obtain kvs where d: "d = JObj kvs"
      and c: "opt_field is_str kvs ''check''" and i: "opt_field is_str kvs ''impact''"
      and cf: "opt_field is_str kvs ''confidence''" and de: "opt_field is_str kvs ''description''"
      and el: "opt_field wf_elements kvs ''elements''"
    using assms by (cases d) auto
  obtain chk where chk: "dict_get d ''check'' (JStr ''unknown'') = Some (JStr chk)"
    using opt_str_get[OF c] d by auto
  obtain ttl where ttl: "dict_get d ''check'' (JStr ''Unknown Issue'') = Some (JStr ttl)"
    using opt_str_get[OF c] d by auto
  obtain imp where imp: "dict_get d ''impact'' (JStr ''Medium'') = Some (JStr imp)"
    using opt_str_get[OF i] d by auto
  obtain con where con: "dict_get d ''confidence'' (JStr ''Medium'') = Some (JStr con)"
    using opt_str_get[OF cf] d by auto
  obtain des where des: "dict_get d ''description'' (JStr '''') = Some (JStr des)"
    using opt_str_get[OF de] d by auto
  define els where "els = (case map_of kvs ''elements'' of Some v \<Rightarrow> v | None \<Rightarrow> JArr [])"
  have els: "dict_get d ''elements'' (JArr []) = Some els" using d by (simp add: els_def)
  have "wf_elements els" using el by (auto simp: els_def opt_field_def split: option.splits)
  then obtain l where l: "slither_location els = Some l" using slither_location_wf by blast
  have cat: "slither_category d = chk"
    using chk d by (auto split: option.splits json.splits)
  show ?thesis
    using chk ttl imp con des els l d
    by (auto simp: slither_detector_finding_def table_get_str slither_map_severity_def
          confidence_to_score_def Finding_new_def cat table_type_def
          split: option.splits)
qed

lemma slither_loop_wf:
  "list_all wf_detector ds \<Longrightarrow>
   \<exists>fs. slither_detectors_loop ds acc = Some (acc @ fs) \<and> length fs = length ds \<and>
        map vulnerability_type fs = map (\<lambda>d. table_type detector_mapping (slither_category d)) ds"
proof (induction ds arbitrary: acc)
  case Nil
  then show ?case by simp
next
  case (Cons d ds)
  then obtain f where f: "slither_detector_finding d = Some f"
      "vulnerability_type f = table_type detector_mapping (slither_category d)"
    using slither_detector_finding_wf[of d] by auto
  have "list_all wf_detector ds" using Cons.prems by simp
  from Cons.IH[OF this, of "acc @ [f]"] obtain fs where
    "slither_detectors_loop ds (acc @ [f]) = Some ((acc @ [f]) @ fs)" "length fs = length ds"
    "map vulnerability_type fs = map (\<lambda>d. table_type detector_mapping (slither_category d)) ds"
    by blast
  then show ?case using f
    by (intro exI[of _ "f # fs"]) simp
qed

lemma opt_str_get_null:
  "opt_field is_str kvs k \<Longrightarrow>
   (case map_of kvs k of Some v \<Rightarrow> v | None \<Rightarrow> JNull) = JNull \<or>
   (\<exists>s. (case map_of kvs k of Some v \<Rightarrow> v | None \<Rightarrow> JNull) = JStr s)"
  by (auto simp: opt_field_def split: option.splits dest: is_strE)

lemma py_or_str:
  assumes "a = JNull \<or> (\<exists>s. a = JStr s)" "b = JNull \<or> (\<exists>s. b = JStr s)"
  shows "\<exists>s. py_or (py_or a b) (JStr '''') = JStr s"
  using assms by (auto simp: py_or_def)

lemma opt_int_get:
  "opt_field is_int kvs k \<Longrightarrow> \<exists>n. dict_get (JObj kvs) k (JInt d) = Some (JInt n)"
  by (auto simp: opt_field_def split: option.splits dest: is_intE)

lemma mythril_issue_finding_wf:
  assumes "wf_issue issue"
  shows "\<exists>f. mythril_issue_finding issue = Some f \<and>
             vulnerability_type f = table_type swc_to_vuln_type (mythril_category issue)"
proof -
  obtain kvs where d: "issue = JObj kvs"
      and a: "opt_field is_str kvs ''swc-id''" and b: "opt_field is_str kvs ''swcID''"
      and ln: "opt_field is_int kvs ''lineno''" and fn: "opt_field is_str kvs ''filename''"
      and co: "opt_field is_str kvs ''code''" and ti: "opt_field is_str kvs ''title''"
      and de: "opt_field is_str kvs ''description''" and se: "opt_field is_str kvs ''severity''"
    using assms by (cases issue) auto
  define va where "va = (case map_of kvs ''swc-id'' of Some v \<Rightarrow> v | None \<Rightarrow> JNull)"
  define vb where "vb = (case map_of kvs ''swcID'' of Some v \<Rightarrow> v | None \<Rightarrow> JNull)"
  have ga: "dict_get issue ''swc-id'' JNull = Some va" and gb: "dict_get issue ''swcID'' JNull = Some vb"
    using d by (simp_all add: va_def vb_def)
  obtain swc where swc: "py_or (py_or va vb) (JStr '''') = JStr swc"
    using py_or_str[OF opt_str_get_null[OF a] opt_str_get_null[OF b]]
    unfolding va_def vb_def by blast
  have cat: "mythril_category issue = swc"
    using swc d by (simp add: va_def vb_def)
  obtain n where n: "dict_get issue ''lineno'' (JInt 0) = Some (JInt n)"
    using opt_int_get[OF ln] d by auto
  obtain fp where fp: "dict_get issue ''filename'' (JStr '''') = Some (JStr fp)"
    using opt_str_get[OF fn] d by auto
  obtain cs where cs: "dict_get issue ''code'' (JStr '''') = Some (JStr cs)"
    using opt_str_get[OF co] d by auto
  obtain tt where tt: "dict_get issue ''title'' (JStr ''Unknown Issue'') = Some (JStr tt)"
    using opt_str_get[OF ti] d by auto
  obtain ds where ds: "dict_get issue ''description'' (JStr '''') = Some (JStr ds)"
    using opt_str_get[OF de] d by auto
  obtain sv where sv: "dict_get issue ''severity'' (JStr ''Medium'') = Some (JStr sv)"
    using opt_str_get[OF se] d by auto
  show ?thesis
    using ga gb swc n fp cs tt ds sv d
    by (auto simp: mythril_issue_finding_def table_get_str mythril_map_severity_def
          Finding_new_def VulnerabilityLocation_new_def cat table_type_def Let_def
          split: option.splits)
qed

lemma wf_issue_is_dict: "wf_issue issue \<Longrightarrow> is_dict issue"
  by (cases issue) auto

lemma mythril_loop_wf:
  "list_all wf_issue issues \<Longrightarrow>
   \<exists>fs. mythril_issues_loop issues acc = Some (acc @ fs) \<and> length fs = length issues \<and>
        map vulnerability_type fs
          = map (\<lambda>i. table_type swc_to_vuln_type (mythril_category i)) issues"
proof (induction issues arbitrary: acc)
  case Nil
  then show ?case by simp
next
  case (Cons i issues)
  then obtain f where f: "mythril_issue_finding i = Some f"
      "vulnerability_type f = table_type swc_to_vuln_type (mythril_category i)"
    using mythril_issue_finding_wf[of i] by auto
  have d: "is_dict i" using Cons.prems by (simp add: wf_issue_is_dict)
  have "list_all wf_issue issues" using Cons.prems by simp
  from Cons.IH[OF this, of "acc @ [f]"] obtain fs where
    "mythril_issues_loop issues (acc @ [f]) = Some ((acc @ [f]) @ fs)" "length fs = length issues"
    "map vulnerability_type fs
       = map (\<lambda>i. table_type swc_to_vuln_type (mythril_category i)) issues"
    by blast
  then show ?case using f d
    by (intro exI[of _ "f # fs"]) simp
qed

lemma assertion_loop_wf:
  "list_all has_line ms \<Longrightarrow>
   \<exists>fs. assertion_loop ms acc = Some (acc @ fs) \<and> length fs = length ms"
proof (induction ms arbitrary: acc)
  case Nil
  then show ?case by simp
next
  case (Cons m ms)
  then obtain f where f: "assertion_finding m = Some f"
    by (auto simp: has_line_def assertion_finding_def)
  have "list_all has_line ms" using Cons.prems by simp
  from Cons.IH[OF this, of "acc @ [f]"] obtain fs where
    "assertion_loop ms (acc @ [f]) = Some ((acc @ [f]) @ fs)" "length fs = length ms"
    by blast
  then show ?case using f
    by (intro exI[of _ "f # fs"]) simp
qed

lemma keyword_type_unknown:
  "\<forall>kw\<in>fst ` set tbl. \<not> str_contains kw (lower name) \<Longrightarrow> keyword_type tbl name = UNKNOWN"
  by (induction tbl) auto

lemma parse_text_output_wf:
  assumes "list_all has_line (assertion_pattern lib (out @ [CHR 0x0A] @ err))"
  shows "\<exists>fs. parse_text_output lib out (JStr err) = Some fs \<and>
           length fs = length (failed_pattern lib (out @ [CHR 0x0A] @ err))
                       + length (assertion_pattern lib (out @ [CHR 0x0A] @ err)) \<and>
           map vulnerability_type (take (length (failed_pattern lib (out @ [CHR 0x0A] @ err))) fs)
             = map (keyword_type property_to_vuln_type) (failed_pattern lib (out @ [CHR 0x0A] @ err))"
proof -
  let ?full = "out @ [CHR 0x0A] @ err"
  from assertion_loop_wf[OF assms, of "map failed_finding (failed_pattern lib ?full)"]
  obtain fs where "assertion_loop (assertion_pattern lib ?full)
                     (map failed_finding (failed_pattern lib ?full))
                   = Some (map failed_finding (failed_pattern lib ?full) @ fs)"
      "length fs = length (assertion_pattern lib ?full)"
    by blast
  then show ?thesis
    by (simp add: parse_text_output_def Let_def failed_finding_def comp_def)
qed

lemma test_finding_dict:
  assumes "is_dict (snd t)"
  shows "test_finding lib t =
           (if test_failed (snd t) then
              Some (Some (the (the (test_finding lib t))))
            else Some None) \<and>
         (test_failed (snd t) \<longrightarrow>
            vulnerability_type (the (the (test_finding lib t))) = test_type t)"
proof -
  obtain n r where t: "t = (n, r)" by (cases t)
  obtain kvs where r: "r = JObj kvs" using assms t by (cases r) auto
  show ?thesis
    by (auto simp: t r test_finding_def test_type_def Let_def split: option.splits)
qed

lemma tests_loop_wf:
  "list_all (\<lambda>t. is_dict (snd t)) tests \<Longrightarrow>
   \<exists>fs. tests_loop lib tests acc = Some (acc @ fs) \<and>
        length fs = length (filter (\<lambda>t. test_failed (snd t)) tests) \<and>
        map vulnerability_type fs = map test_type (filter (\<lambda>t. test_failed (snd t)) tests)"
proof (induction tests arbitrary: acc)
  case Nil
  then show ?case by simp
next
  case (Cons t tests)
  have d: "is_dict (snd t)" and rest: "list_all (\<lambda>t. is_dict (snd t)) tests"
    using Cons.prems by simp_all
  note tf = test_finding_dict[OF d, of lib]
  show ?case
  proof (cases "test_failed (snd t)")
    case True
    define f where "f = the (the (test_finding lib t))"
    have f: "test_finding lib t = Some (Some f)" "vulnerability_type f = test_type t"
      using tf True by (simp_all add: f_def)
    from Cons.IH[OF rest, of "acc @ [f]"] obtain fs where
      "tests_loop lib tests (acc @ [f]) = Some ((acc @ [f]) @ fs)"
      "length fs = length (filter (\<lambda>t. test_failed (snd t)) tests)"
      "map vulnerability_type fs = map test_type (filter (\<lambda>t. test_failed (snd t)) tests)"
      by blast
    then show ?thesis using f True
      by (intro exI[of _ "f # fs"]) simp
  next
    case False
    then have f: "test_finding lib t = Some None" using tf by simp
    from Cons.IH[OF rest, of acc] obtain fs where
      "tests_loop lib tests acc = Some (acc @ fs)"
      "length fs = length (filter (\<lambda>t. test_failed (snd t)) tests)"
      "map vulnerability_type fs = map test_type (filter (\<lambda>t. test_failed (snd t)) tests)"
      by blast
    then show ?thesis using f False
      by (intro exI[of _ fs]) simp
  qed
qed

text \<open>
  Claim C7, as stated, asks one finding per issue of every list. The parsers do not give
  that for a list with an entry that is not an issue object: Mythril's loop skips an entry
  that is not a dict, so two entries give one finding, and in Slither's loop such an entry
  raises, so the parser returns \<open>None\<close> and the finding of the well-formed detector is lost
  with it.
\<close>

theorem malformed_entries_reduce_count:
  "length mixed_issues = 2 \<and>
   map_option length (mythril_issues_loop mixed_issues []) = Some 1 \<and>
   length mixed_detectors = 2 \<and>
   slither_detectors_loop mixed_detectors [] = None"
  by (simp add: mixed_issues_def mixed_detectors_def example_issues_def example_detectors_def
        mythril_issue_finding_def slither_detector_finding_def table_get_def py_or_def
        swc_to_vuln_type_def detector_mapping_def mythril_map_severity_def
        slither_map_severity_def confidence_to_score_def slither_location_def seq_index_def
        Finding_new_def VulnerabilityLocation_new_def Let_def)

text \<open>
  Claim C7, amended. For a list of issues that are objects with fields of the tool's
  types, the category-mapping loop of each parser produces exactly one finding per issue:
  the loops over Slither detectors and over Mythril issues return as many findings as
  there are issues, the finding of issue \<open>i\<close> has the type the fixed table gives to its
  category, and \<open>UNKNOWN\<close> when the table does not hold the category. Echidna's text parser
  gives one finding per match of either pattern (with line numbers \<open>int\<close> accepts), its
  JSON parser one finding per failed test whose result is an object, and a property name
  without any keyword gives \<open>UNKNOWN\<close>.
\<close>

theorem mapping_preserves_finding_count:
  "(list_all wf_detector detectors \<longrightarrow>
      (\<exists>fs. slither_detectors_loop detectors [] = Some fs \<and> length fs = length detectors \<and>
            (\<forall>i<length detectors.
               vulnerability_type (fs ! i)
                 = table_type detector_mapping (slither_category (detectors ! i)) \<and>
               (detector_mapping (slither_category (detectors ! i)) = None
                  \<longrightarrow> vulnerability_type (fs ! i) = UNKNOWN)))) \<and>
   (list_all wf_issue issues \<longrightarrow>
      (\<exists>fs. mythril_issues_loop issues [] = Some fs \<and> length fs = length issues \<and>
            (\<forall>i<length issues.
               vulnerability_type (fs ! i)
                 = table_type swc_to_vuln_type (mythril_category (issues ! i)) \<and>
               (swc_to_vuln_type (mythril_category (issues ! i)) = None
                  \<longrightarrow> vulnerability_type (fs ! i) = UNKNOWN)))) \<and>
   (list_all has_line (assertion_pattern lib (out @ [CHR 0x0A] @ err)) \<longrightarrow>
      (\<exists>fs. parse_text_output lib out (JStr err) = Some fs \<and>
            length fs = length (failed_pattern lib (out @ [CHR 0x0A] @ err))
                        + length (assertion_pattern lib (out @ [CHR 0x0A] @ err)))) \<and>
   (list_all (\<lambda>t. is_dict (snd t)) tests \<longrightarrow>
      (\<exists>fs. tests_loop lib tests [] = Some fs \<and>
            length fs = length (filter (\<lambda>t. test_failed (snd t)) tests) \<and>
            map vulnerability_type fs
              = map test_type (filter (\<lambda>t. test_failed (snd t)) tests))) \<and>
   ((\<forall>kw\<in>fst ` set property_to_vuln_type. \<not> str_contains kw (lower name))
      \<longrightarrow> vulnerability_type (failed_finding name) = UNKNOWN)"
proof (intro conjI impI)
  assume "list_all wf_detector detectors"
  from slither_loop_wf[OF this, of "[]"] obtain fs where
    fs: "slither_detectors_loop detectors [] = Some fs" "length fs = length detectors"
        "map vulnerability_type fs
           = map (\<lambda>d. table_type detector_mapping (slither_category d)) detectors"
    by auto
  have "\<forall>i<length detectors. vulnerability_type (fs ! i)
          = table_type detector_mapping (slither_category (detectors ! i))"
    using fs(2,3) by (metis nth_map)
  then show "\<exists>fs. slither_detectors_loop detectors [] = Some fs \<and> length fs = length detectors \<and>
            (\<forall>i<length detectors.
               vulnerability_type (fs ! i)
                 = table_type detector_mapping (slither_category (detectors ! i)) \<and>
               (detector_mapping (slither_category (detectors ! i)) = None
                  \<longrightarrow> vulnerability_type (fs ! i) = UNKNOWN))"
    using fs(1,2) by (auto simp: table_type_def)
next
  assume "list_all wf_issue issues"
  from mythril_loop_wf[OF this, of "[]"] obtain fs where
    fs: "mythril_issues_loop issues [] = Some fs" "length fs = length issues"
        "map vulnerability_type fs
           = map (\<lambda>i. table_type swc_to_vuln_type (mythril_category i)) issues"
    by auto
  have "\<forall>i<length issues. vulnerability_type (fs ! i)
          = table_type swc_to_vuln_type (mythril_category (issues ! i))"
    using fs(2,3) by (metis nth_map)
  then show "\<exists>fs. mythril_issues_loop issues [] = Some fs \<and> length fs = length issues \<and>
            (\<forall>i<length issues.
               vulnerability_type (fs ! i)
                 = table_type swc_to_vuln_type (mythril_category (issues ! i)) \<and>
               (swc_to_vuln_type (mythril_category (issues ! i)) = None
                  \<longrightarrow> vulnerability_type (fs ! i) = UNKNOWN))"
    using fs(1,2) by (auto simp: table_type_def)
next
  assume "list_all has_line (assertion_pattern lib (out @ [CHR 0x0A] @ err))"
  from parse_text_output_wf[OF this]
  show "\<exists>fs. parse_text_output lib out (JStr err) = Some fs \<and>
            length fs = length (failed_pattern lib (out @ [CHR 0x0A] @ err))
                        + length (assertion_pattern lib (out @ [CHR 0x0A] @ err))"
    by blast
next
  assume "list_all (\<lambda>t. is_dict (snd t)) tests"
  from tests_loop_wf[OF this, of lib "[]"]
  show "\<exists>fs. tests_loop lib tests [] = Some fs \<and>
            length fs = length (filter (\<lambda>t. test_failed (snd t)) tests) \<and>
            map vulnerability_type fs
              = map test_type (filter (\<lambda>t. test_failed (snd t)) tests)"
    by simp
next
  assume "\<forall>kw\<in>fst ` set property_to_vuln_type. \<not> str_contains kw (lower name)"
  then show "vulnerability_type (failed_finding name) = UNKNOWN"
    by (simp add: failed_finding_def keyword_type_unknown)
qed

theorem mapping_preserves_finding_count_witness:
  "(\<exists>fs. slither_detectors_loop example_detectors [] = Some fs \<and> length fs = 2 \<and>
         vulnerability_type (fs ! 0) = REENTRANCY \<and> vulnerability_type (fs ! 1) = UNKNOWN) \<and>
   (\<exists>fs. mythril_issues_loop example_issues [] = Some fs \<and> length fs = 2 \<and>
         vulnerability_type (fs ! 0) = REENTRANCY \<and> vulnerability_type (fs ! 1) = UNKNOWN) \<and>
   (\<exists>fs. parse_text_output example_lib ''echidna_balance: failed!'' (JStr '''') = Some fs \<and>
         length fs = 1) \<and>
   (\<exists>fs. tests_loop example_lib example_tests [] = Some fs \<and> length fs = 2 \<and>
         map vulnerability_type fs = [UNPROTECTED_ETHER, UNKNOWN]) \<and>
   vulnerability_type (failed_finding ''totalSupply'') = UNKNOWN"
proof -
  have d: "list_all wf_detector example_detectors"
    by (simp add: example_detectors_def opt_field_def)
  have i: "list_all wf_issue example_issues"
    by (simp add: example_issues_def opt_field_def)
  have a: "list_all has_line
             (assertion_pattern example_lib (''echidna_balance: failed!'' @ [CHR 0x0A] @ ''''))"
    by (simp add: example_lib_def)
  have k: "\<forall>kw\<in>fst ` set property_to_vuln_type. \<not> str_contains kw (lower ''totalSupply'')"
    by (simp add: property_to_vuln_type_def lower_def lower_char_def)
  have c1: "table_type detector_mapping (slither_category (example_detectors ! 0)) = REENTRANCY"
           "table_type detector_mapping (slither_category (example_detectors ! 1)) = UNKNOWN"
    by (simp_all add: example_detectors_def table_type_def detector_mapping_def)
  have c2: "table_type swc_to_vuln_type (mythril_category (example_issues ! 0)) = REENTRANCY"
           "table_type swc_to_vuln_type (mythril_category (example_issues ! 1)) = UNKNOWN"
    by (simp_all add: example_issues_def table_type_def swc_to_vuln_type_def py_or_def)
  have t: "list_all (\<lambda>t. is_dict (snd t)) example_tests"
    by (simp add: example_tests_def)
  have tf: "filter (\<lambda>t. test_failed (snd t)) example_tests
              = [example_tests ! 0, example_tests ! 2]"
    by (simp add: example_tests_def)
  have tt: "test_type (example_tests ! 0) = UNPROTECTED_ETHER"
           "test_type (example_tests ! 2) = UNKNOWN"
    by (simp_all add: example_tests_def test_type_def property_to_vuln_type_def lower_def
          lower_char_def)
  have l: "length example_detectors = 2" "length example_issues = 2"
    by (simp_all add: example_detectors_def example_issues_def)
  have f: "length (failed_pattern example_lib (''echidna_balance: failed!'' @ [CHR 0x0A] @ '''')) = 1"
          "length (assertion_pattern example_lib (''echidna_balance: failed!'' @ [CHR 0x0A] @ '''')) = 0"
    by (simp_all add: example_lib_def)
  from mapping_preserves_finding_count
         [of example_detectors example_issues example_lib "''echidna_balance: failed!''" "''''"
             example_tests "''totalSupply''"]
  show ?thesis
    using d i a k c1 c2 l f t tf tt by (auto simp: numeral_2_eq_2)
qed

lemma classify_parsed:
  "parse_wrapper_output a lib out err = Inr (Some fs) \<Longrightarrow>
   status (classify a lib w out err rc) = SUCCESS \<and> findings (classify a lib w out err rc) = fs"
  by (cases a) (simp_all add: slither_classify_def mythril_classify_def echidna_classify_def)

text \<open>
  What \<open>analyze\<close> does with the return code: once \<open>_parse_wrapper_output\<close> has returned a
  list, the result is \<open>SUCCESS\<close> with that list, whatever the code.
\<close>

lemma parsed_list_is_success:
  assumes "\<not> no_target a p"
      and "fst (sandbox_run a env p s) = Return (stdout, stderr, rc)"
      and "rc \<noteq> 0"
      and "parse_wrapper_output a lib stdout stderr = Inr (Some fs)"
  shows "\<exists>r s'. analyze a env lib p s = (Return r, s') \<and> status r = SUCCESS \<and>
                findings r = fs \<and> status r \<noteq> ERROR"
proof -
  obtain s1 where "sandbox_run a env p s = (Return (stdout, stderr, rc), s1)"
    using assms(2) by (cases "sandbox_run a env p s") auto
  then show ?thesis
    using assms(1) classify_parsed[OF assms(4)] by (simp add: analyze_steps)
qed


lemma report_ne: "slither_report \<noteq> slither_wrapper_json_text"
  by (simp add: slither_report_def slither_wrapper_json_text_def printed_def)

lemma stdout_ne:
  "slither_wrapper_stdout \<noteq> slither_wrapper_json_text"
  "slither_wrapper_stdout \<noteq> slither_report"
  by (simp_all add: slither_wrapper_stdout_def slither_wrapper_json_text_def slither_report_def
        printed_def)

lemma loads_facts:
  "json_loads slither_lib slither_wrapper_stdout = None"
  "json_loads slither_lib slither_wrapper_json_text = Some slither_wrapper_json"
  "json_loads slither_lib slither_report = Some slither_report_json"
  using report_ne stdout_ne by (auto simp: slither_lib_def)

lemma report_shape:
  "strip slither_report \<noteq> []" "str_find slither_report CHR ''{'' = 0"
  by (simp_all add: slither_report_def strip_def py_isspace_def)

lemma slither_report_findings:
  "map_option (map vulnerability_type) (slither_parse_data slither_report_json) = Some [REENTRANCY]"
  by (simp add: slither_parse_data_def slither_report_json_def slither_detector_finding_def
        table_get_def detector_mapping_def slither_location_def slither_map_severity_def
        confidence_to_score_def Finding_new_def)

lemma parse_logged: "slither_parse_wrapper_output slither_lib slither_wrapper_stdout [] = Inr (Some [])"
  by (simp add: slither_parse_wrapper_output_def loads_facts)

lemma parse_bare: "slither_parse_wrapper_output slither_lib slither_wrapper_json_text [] = Inr (Some [])"
  by (simp add: slither_parse_wrapper_output_def loads_facts slither_wrapper_json_def
        slither_parse_output_def report_shape slither_report_json_def)

lemma slither0_run:
  "slither_analyze (tool_prints out rc) lib bank_sol slither0
     = (Return (slither_classify lib (wrapper slither0) out [] rc),
        slither0 \<lparr> commands := [sandbox_cmd Slither bank_sol (wrapper slither0)] \<rparr>)"
  by (simp add: slither_analyze_def run_in_container_def run_command_def Let_def tool_prints_def
        sandbox_cmd_def slither0_def fresh_def SlitherWrapper_new_def DockerToolWrapper_new_def
        timeout_of_def config0_def bank_sol_def)

text \<open>
  Claim C2 asks that a run which exits with a code other than 0 and whose output holds
  well-formed findings be classified \<open>SUCCESS\<close> with those findings attached. The Slither
  adapter attaches none. The report of the example holds one reentrancy detector, which
  the detector loop turns into one finding, and Slither exits with code 1. On what the
  wrapper script prints (two log lines, then its JSON) \<open>json.loads\<close> fails and
  \<open>_parse_wrapper_output\<close> returns the empty list; on the JSON alone, \<open>_parse_output\<close> looks
  for the wrapper's \<open>status\<close> key a second time, in Slither's own report, and returns the
  empty list. Either way the result is \<open>SUCCESS\<close> with no findings.
\<close>

theorem reported_findings_not_attached:
  "map_option (map vulnerability_type) (slither_parse_data slither_report_json) = Some [REENTRANCY] \<and>
   fst (analyze Slither (tool_prints slither_wrapper_stdout 1) slither_lib bank_sol slither0)
     = Return \<lparr> tool_name = ''slither'', status = SUCCESS, findings = [],
                result_raw_output = Some slither_wrapper_stdout, error_message = None \<rparr> \<and>
   fst (analyze Slither (tool_prints slither_wrapper_json_text 1) slither_lib bank_sol slither0)
     = Return \<lparr> tool_name = ''slither'', status = SUCCESS, findings = [],
                result_raw_output = Some slither_wrapper_json_text, error_message = None \<rparr>"
  by (simp add: slither_report_findings slither0_run slither_classify_def parse_logged parse_bare)
     (simp add: slither0_def fresh_def SlitherWrapper_new_def DockerToolWrapper_new_def)

end
